theory Spec2Isabelle
  imports Complex_Main "HOL-Library.Char_ord" "HOL-Library.List_Lexorder" "HOL-Library.Multiset"
begin

section \<open>The COVID-19 dashboard script (App.py)\<close>

text \<open>
  The script is a Streamlit page: it loads two CSV files into pandas tables, reads three
  sidebar widgets and derives a filtered view of the time-series table with its aggregates.
  The embedding below keeps the data flow of the script and leaves the page layout and the
  charts' styling out. Reading a CSV file is input: the parsed table is a parameter of the
  loader that receives it.
\<close>

subsection \<open>Exceptions\<close>

datatype error = IndexError | KeyError | TypeError

subsection \<open>The time-series table (full_grouped.csv after load_data)\<close>

text \<open>
  One row per country and date. A missing text cell is NaN and a missing date is NaT after
  \<^verbatim>\<open>pd.to_datetime\<close>: both are \<open>None\<close>. A date is its day number (Python's
  \<^verbatim>\<open>date.toordinal\<close>); the sidebar yields whole days and the file holds whole days, so
  the comparison of timestamps is the comparison of day numbers. The counts are the int64
  columns of the file; their sums are taken as pandas takes them, in 64 bits.
\<close>

record ts_row =
  Country_Region :: "string option"
  WHO_Region :: "string option"
  Date :: "int option"
  Confirmed :: int
  Deaths :: int
  Recovered :: int
  Active :: int

type_synonym ts_table = "ts_row list"

subsection \<open>The pandas operations the script calls\<close>

text \<open>\<^verbatim>\<open>Series.isin(values)\<close>: a missing cell is in no list of strings.\<close>

definition isin :: "'a option list \<Rightarrow> 'a list \<Rightarrow> bool list" where
  "isin col vals = map (\<lambda>v. case v of None \<Rightarrow> False | Some x \<Rightarrow> x \<in> set vals) col"

text \<open>\<^verbatim>\<open>Series.between(left, right)\<close>: inclusive on both sides, False on NaT.\<close>

definition between :: "int option list \<Rightarrow> int \<Rightarrow> int \<Rightarrow> bool list" where
  "between col left right =
     map (\<lambda>v. case v of None \<Rightarrow> False | Some d \<Rightarrow> left \<le> d \<and> d \<le> right) col"

text \<open>The elementwise \<^verbatim>\<open>&\<close> of two boolean columns of one table.\<close>

definition mask_and :: "bool list \<Rightarrow> bool list \<Rightarrow> bool list" where
  "mask_and a b = map (\<lambda>(x, y). x \<and> y) (zip a b)"

text \<open>\<^verbatim>\<open>Series == value\<close>: a missing cell equals no string.\<close>

definition eq_mask :: "'a option list \<Rightarrow> 'a \<Rightarrow> bool list" where
  "eq_mask col v = map (\<lambda>c. c = Some v) col"

text \<open>\<^verbatim>\<open>df[mask]\<close>: a new table of the rows whose mask entry is True, in table order.\<close>

definition boolean_index :: "'r list \<Rightarrow> bool list \<Rightarrow> 'r list" where
  "boolean_index df msk = map fst (filter snd (zip df msk))"

text \<open>\<^verbatim>\<open>Series.dropna()\<close>.\<close>

fun dropna :: "'a option list \<Rightarrow> 'a list" where
  "dropna [] = []"
| "dropna (None # xs) = dropna xs"
| "dropna (Some x # xs) = x # dropna xs"

text \<open>
  The group keys of \<^verbatim>\<open>groupby(column)\<close> with its defaults \<^verbatim>\<open>sort=True\<close> and
  \<^verbatim>\<open>dropna=True\<close>: the distinct present values of the column in ascending order. The
  same list is \<^verbatim>\<open>sorted(column.dropna().unique())\<close>. Strings compare as Python's do,
  character by character.
\<close>

definition groupby_keys :: "('a::linorder) option list \<Rightarrow> 'a list" where
  "groupby_keys col = sort (remdups (dropna col))"

subsection \<open>The snapshot table (worldometer_data.csv)\<close>

text \<open>
  \<^verbatim>\<open>load_world_data\<close> works on whole columns and on their dtypes, so the snapshot table is
  kept as pandas keeps it: a list of named columns, each a dtype and its cells, all of one
  length. \<open>NA\<close> is a missing cell (NaN in a float64 or object column, \<^verbatim>\<open><NA>\<close> in an
  Int64 column). \<open>F64 m e\<close> is the finite double \<open>m \<times> 2\<^sup>e\<close>, \<open>F64_inf\<close> an infinite one
  (positive when its flag is True), \<open>I64 n\<close> an integer and \<open>Str s\<close> a string.
\<close>

datatype dtype = float64 | int64 | Int64 | object

datatype cell = NA | F64 int int | F64_inf bool | I64 int | Str string

type_synonym column = "dtype \<times> cell list"

type_synonym frame = "(string \<times> column) list"

text \<open>\<^verbatim>\<open>df[col]\<close>: the column of that name, KeyError when there is none.\<close>

definition getitem :: "frame \<Rightarrow> string \<Rightarrow> error + column" where
  "getitem df col = (case map_of df col of None \<Rightarrow> Inl KeyError | Some c \<Rightarrow> Inr c)"

text \<open>\<^verbatim>\<open>df[col] = values\<close>: replaces the column in its place, or appends a new one.\<close>

fun setitem :: "frame \<Rightarrow> string \<Rightarrow> column \<Rightarrow> frame" where
  "setitem [] col c = [(col, c)]"
| "setitem ((name, c0) # df) col c =
     (if name = col then (name, c) # df else (name, c0) # setitem df col c)"

text \<open>\<^verbatim>\<open>df.select_dtypes(include=['float64']).columns\<close>.\<close>

definition float_columns :: "frame \<Rightarrow> string list" where
  "float_columns df = map fst (filter (\<lambda>(name, dt, cells). dt = float64) df)"

text \<open>\<^verbatim>\<open>Index.drop(labels)\<close>: KeyError unless every label is in the index.\<close>

definition index_drop :: "string list \<Rightarrow> string list \<Rightarrow> error + string list" where
  "index_drop idx labels =
     (if list_all (\<lambda>l. l \<in> set idx) labels
      then Inr (filter (\<lambda>name. name \<notin> set labels) idx)
      else Inl KeyError)"

definition per_million :: "string list" where
  "per_million = [''Tests/1M pop'', ''Deaths/1M pop'', ''Tot Cases/1M pop'']"

text \<open>
  \<^verbatim>\<open>Series.astype('Int64')\<close>. A missing cell stays missing. A float is cast when the cast
  loses nothing: it is finite, has no fractional part and lies in the range of a signed
  64-bit integer. For a column with any other float, or with a string, pandas raises an
  exception; its class depends on the offending value (TypeError for a fraction,
  OverflowError for an infinite value). The only caller catches \<^verbatim>\<open>Exception\<close>, so the
  model keeps that the cast raised and not the class: \<open>None\<close> is a raised exception.
\<close>

definition float_int_value :: "int \<Rightarrow> int \<Rightarrow> int option" where
  "float_int_value m e =
     (if 0 \<le> e then Some (m * 2 ^ nat e)
      else if m mod 2 ^ nat (- e) = 0 then Some (m div 2 ^ nat (- e))
      else None)"

fun cast_cell :: "cell \<Rightarrow> cell option" where
  "cast_cell NA = Some NA"
| "cast_cell (F64 m e) =
     (case float_int_value m e of
        None \<Rightarrow> None
      | Some n \<Rightarrow> if - (2 ^ 63) \<le> n \<and> n < 2 ^ 63 then Some (I64 n) else None)"
| "cast_cell (F64_inf positive) = None"
| "cast_cell (I64 n) = Some (I64 n)"
| "cast_cell (Str s) = None"

definition astype_Int64 :: "column \<Rightarrow> column option" where
  "astype_Int64 c =
     (case those (map cast_cell (snd c)) of
        None \<Rightarrow> None
      | Some cells \<Rightarrow> Some (Int64, cells))"

text \<open>
  One pass of the loop over \<^verbatim>\<open>float_cols\<close>: the \<^verbatim>\<open>try\<close> block assigns the converted
  column, and the \<^verbatim>\<open>except Exception\<close> block prints a line that names the column and
  goes on. The second component is what has been printed so far: the names of the columns
  a line was printed for.
\<close>

type_synonym printed = "string list"

definition try_convert :: "string \<Rightarrow> frame \<times> printed \<Rightarrow> frame \<times> printed" where
  "try_convert col st =
     (case st of (df, out) \<Rightarrow>
        (case getitem df col of
           Inl e \<Rightarrow> (df, out @ [col])
         | Inr c \<Rightarrow>
             (case astype_Int64 c of
                None \<Rightarrow> (df, out @ [col])
              | Some converted \<Rightarrow> (setitem df col converted, out))))"

fun convert_columns :: "string list \<Rightarrow> frame \<times> printed \<Rightarrow> frame \<times> printed" where
  "convert_columns [] st = st"
| "convert_columns (col # cols) st = convert_columns cols (try_convert col st)"

text \<open>\<^verbatim>\<open>column != value\<close> for a string value, and \<^verbatim>\<open>column.isna()\<close>.\<close>

definition ne_mask :: "cell list \<Rightarrow> string \<Rightarrow> bool list" where
  "ne_mask cells s = map (\<lambda>c. c \<noteq> Str s) cells"

definition isna :: "cell list \<Rightarrow> bool list" where
  "isna cells = map (\<lambda>c. c = NA) cells"

text \<open>\<^verbatim>\<open>df[mask]\<close> on a table of columns: a new table with the rows of the mask.\<close>

definition select_rows :: "frame \<Rightarrow> bool list \<Rightarrow> frame" where
  "select_rows df msk = map (\<lambda>(name, dt, cells). (name, dt, boolean_index cells msk)) df"

text \<open>
  \<^verbatim>\<open>target.loc[mask] = source.loc[mask]\<close> for two columns of one table: the masked rows
  take the source's cells. With no masked row nothing changes. An object column takes any
  cell, and a column takes the cells of a column of its own dtype. For any other pair of
  dtypes pandas either recasts the target or raises TypeError, by dtype and by version; the
  model takes the TypeError.
\<close>

definition loc_assign :: "bool list \<Rightarrow> column \<Rightarrow> column \<Rightarrow> error + column" where
  "loc_assign msk target source =
     (if True \<notin> set msk then Inr target
      else if fst target = object \<or> fst target = fst source
      then Inr (fst target,
                map (\<lambda>(m, t, s). if m then s else t) (zip msk (zip (snd target) (snd source))))
      else Inl TypeError)"

text \<open>\<^verbatim>\<open>fillna(0)\<close>: zero for every missing cell, a float zero in a float64 column.\<close>

definition fillna0 :: "frame \<Rightarrow> frame" where
  "fillna0 df =
     map (\<lambda>(name, dt, cells).
            (name, dt, map (\<lambda>c. if c = NA then (if dt = float64 then F64 0 0 else I64 0) else c)
                           cells)) df"

text \<open>
  Lines 101 to 103 of the script: the local \<^verbatim>\<open>world_data\<close> is a new table without the rows
  of Diamond Princess, and then has its missing WHO Region cells set from Continent.
\<close>

definition world_data_local :: "frame \<Rightarrow> error + frame" where
  "world_data_local df =
     (case getitem df ''Country/Region'' of
        Inl e \<Rightarrow> Inl e
      | Inr country \<Rightarrow>
          (let world_data = select_rows df (ne_mask (snd country) ''Diamond Princess'')
           in case getitem world_data ''WHO Region'' of
                Inl e \<Rightarrow> Inl e
              | Inr who \<Rightarrow>
                  (let msk = isna (snd who)
                   in case getitem world_data ''Continent'' of
                        Inl e \<Rightarrow> Inl e
                      | Inr continent \<Rightarrow>
                          (case loc_assign msk who continent of
                             Inl e \<Rightarrow> Inl e
                           | Inr assigned \<Rightarrow>
                               Inr (setitem world_data ''WHO Region'' assigned)))))"

text \<open>
  \<^verbatim>\<open>load_world_data\<close>, given the table that \<^verbatim>\<open>read_csv\<close> parsed. Line 104 fills the local
  table in place and binds \<^verbatim>\<open>world_data\<close> to what \<^verbatim>\<open>fillna(0, inplace=True)\<close> returns, which
  is None; line 105 returns \<^verbatim>\<open>df\<close>. The result is the returned table and what was printed.
\<close>

definition load_world_data :: "frame \<Rightarrow> error + (frame \<times> printed)" where
  "load_world_data csv =
     (case index_drop (float_columns csv) per_million of
        Inl e \<Rightarrow> Inl e
      | Inr float_cols \<Rightarrow>
          (case convert_columns float_cols (csv, []) of (df, out) \<Rightarrow>
             (case world_data_local df of
                Inl e \<Rightarrow> Inl e
              | Inr world_data \<Rightarrow>
                  (let filled = fillna0 world_data;
                       world_data = (None :: frame option)
                   in Inr (df, out)))))"

subsection \<open>Sidebar options\<close>

definition all_regions :: "ts_table \<Rightarrow> string list" where
  "all_regions data = groupby_keys (map WHO_Region data)"

definition all_countries :: "ts_table \<Rightarrow> string list" where
  "all_countries data = groupby_keys (map Country_Region data)"

subsection \<open>APPLY FILTERS\<close>

definition filtered_data :: "ts_table \<Rightarrow> string list \<Rightarrow> string list \<Rightarrow> int \<Rightarrow> int \<Rightarrow> ts_table" where
  "filtered_data data selected_region selected_country start_date end_date =
     (let fd = boolean_index data
                 (mask_and (isin (map WHO_Region data) selected_region)
                           (between (map Date data) start_date end_date))
      in if selected_country \<noteq> []
         then boolean_index fd (isin (map Country_Region fd) selected_country)
         else fd)"

subsection \<open>GLOBAL TRENDS\<close>

text \<open>
  The counts are int64 columns, and pandas adds int64 values in 64-bit two's complement: a
  running total that leaves the range wraps around. \<open>wrap64\<close> is the value a 64-bit
  register holds for an integer, \<open>in_int64\<close> the range, and \<open>sum_int64\<close> the sum as it is
  accumulated.
\<close>

definition wrap64 :: "int \<Rightarrow> int" where
  "wrap64 x = (x + 2 ^ 63) mod 2 ^ 64 - 2 ^ 63"

definition in_int64 :: "int \<Rightarrow> bool" where
  "in_int64 x \<longleftrightarrow> - (2 ^ 63) \<le> x \<and> x < 2 ^ 63"

definition sum_int64 :: "int list \<Rightarrow> int" where
  "sum_int64 xs = fold (\<lambda>x acc. wrap64 (acc + x)) xs 0"

text \<open>
  \<^verbatim>\<open>filtered_data.groupby('Date')[['Confirmed', 'Deaths', 'Recovered']].sum().reset_index()\<close>:
  one row per date of the view, in ascending date order, with the int64 sums over the rows
  of that date.
\<close>

record date_total =
  on_Date :: int
  sum_Confirmed :: int
  sum_Deaths :: int
  sum_Recovered :: int

definition global_data :: "ts_table \<Rightarrow> date_total list" where
  "global_data fd =
     map (\<lambda>d. let grp = filter (\<lambda>r. Date r = Some d) fd
              in \<lparr>on_Date = d,
                  sum_Confirmed = sum_int64 (map Confirmed grp),
                  sum_Deaths = sum_int64 (map Deaths grp),
                  sum_Recovered = sum_int64 (map Recovered grp)\<rparr>)
         (groupby_keys (map Date fd))"

subsection \<open>What the script takes from pandas as given\<close>

text \<open>
  Two results of the script are not fixed by its text. \<^verbatim>\<open>sort_values\<close> sorts with numpy's
  quicksort, which leaves rows of equal value in an order that is no part of its contract;
  and the mean of a group is a float64, rounded as pandas computes it. The model takes both
  from a library value over a type \<open>'f\<close> of floats: the sort of the table of maxima, the
  sort of the table of means, and the mean of a group. A library keeps its contract when
  each sort returns the rows it was given, each as often as it was given, in descending
  order of the value.
\<close>

record 'f library =
  sort_values_Confirmed :: "(string \<times> int) list \<Rightarrow> (string \<times> int) list"
  sort_values_Deaths :: "(string \<times> 'f) list \<Rightarrow> (string \<times> 'f) list"
  mean :: "int list \<Rightarrow> 'f"

definition sorts_descending :: "(('k \<times> 'v::linorder) list \<Rightarrow> ('k \<times> 'v) list) \<Rightarrow> bool" where
  "sorts_descending srt \<longleftrightarrow> (\<forall>t. mset (srt t) = mset t \<and> sorted (rev (map snd (srt t))))"

definition contract :: "('f::linorder) library \<Rightarrow> bool" where
  "contract lib \<longleftrightarrow>
     sorts_descending (sort_values_Confirmed lib) \<and> sorts_descending (sort_values_Deaths lib)"

text \<open>
  One library that keeps the contract, to run the model on examples: a sort that keeps rows
  of equal value in the order they had (reverse, sort in ascending order, reverse), and the
  mean as an exact fraction.
\<close>

definition order_keeping_sort :: "('k \<times> 'v::linorder) list \<Rightarrow> ('k \<times> 'v) list" where
  "order_keeping_sort t = rev (sort_key snd (rev t))"

definition exact_mean :: "int list \<Rightarrow> rat" where
  "exact_mean xs = of_int (sum_list xs) / of_nat (length xs)"

definition example_library :: "rat library" where
  "example_library =
     \<lparr>sort_values_Confirmed = order_keeping_sort,
      sort_values_Deaths = order_keeping_sort,
      mean = exact_mean\<rparr>"

subsection \<open>REGIONAL IMPACT\<close>

text \<open>
  \<^verbatim>\<open>filtered_data.groupby('WHO Region').agg({'Deaths': 'mean'}).reset_index()\<close>, then
  \<^verbatim>\<open>sort_values('Deaths', ascending=False)\<close>.
\<close>

definition region_deaths :: "'f library \<Rightarrow> ts_table \<Rightarrow> (string \<times> 'f) list" where
  "region_deaths lib fd =
     sort_values_Deaths lib
       (map (\<lambda>g. (g, mean lib (map Deaths (filter (\<lambda>r. WHO_Region r = Some g) fd))))
            (groupby_keys (map WHO_Region fd)))"

subsection \<open>TOP 5 AFFECTED COUNTRIES\<close>

text \<open>
  \<^verbatim>\<open>filtered_data.groupby('Country/Region').agg({'Confirmed': 'max'})\<close>: one row per
  country of the view, in ascending order of the country names, with the largest Confirmed
  of the country's rows. The ranking is the index of the first five rows of that table
  after \<^verbatim>\<open>sort_values('Confirmed', ascending=False)\<close>.
\<close>

definition group_max :: "ts_table \<Rightarrow> string \<Rightarrow> int" where
  "group_max fd c = Max (set (map Confirmed (filter (\<lambda>r. Country_Region r = Some c) fd)))"

definition max_confirmed :: "ts_table \<Rightarrow> (string \<times> int) list" where
  "max_confirmed fd = map (\<lambda>c. (c, group_max fd c)) (groupby_keys (map Country_Region fd))"

definition top5 :: "'f library \<Rightarrow> ts_table \<Rightarrow> string list" where
  "top5 lib fd = map fst (take 5 (sort_values_Confirmed lib (max_confirmed fd)))"

text \<open>
  The loop over \<^verbatim>\<open>enumerate(top5)\<close>. A pass whose \<^verbatim>\<open>subset\<close> is empty continues with the
  next country. Every other pass reads \<^verbatim>\<open>subset.iloc[-1]\<close>, the last row of the subset in
  table order, and draws one pie chart into \<^verbatim>\<open>cols[i]\<close>, where \<^verbatim>\<open>cols = st.columns(5)\<close>
  has five entries. A chart is the column it is drawn in, the country of its title and its
  values for the labels Active, Recovered, Deaths.
\<close>

record pie =
  in_column :: nat
  of_country :: string
  pie_values :: "int list"

text \<open>\<^verbatim>\<open>filtered_data[filtered_data['Country/Region'] == country]\<close>.\<close>

definition subset :: "ts_table \<Rightarrow> string \<Rightarrow> ts_table" where
  "subset fd country = boolean_index fd (eq_mask (map Country_Region fd) country)"

fun pie_loop :: "ts_table \<Rightarrow> (nat \<times> string) list \<Rightarrow> error + pie list" where
  "pie_loop fd [] = Inr []"
| "pie_loop fd ((i, country) # rest) =
     (if subset fd country = [] then pie_loop fd rest
      else let last_row = last (subset fd country);
               vals = [Active last_row, Recovered last_row, Deaths last_row]
           in if i < 5
              then (case pie_loop fd rest of
                      Inl e \<Rightarrow> Inl e
                    | Inr drawn \<Rightarrow>
                        Inr (\<lparr>in_column = i, of_country = country, pie_values = vals\<rparr> # drawn))
              else Inl IndexError)"

subsection \<open>One run of the script below LOAD DATA\<close>

text \<open>The values of the three sidebar widgets.\<close>

record sidebar =
  selected_region :: "string list"
  selected_country :: "string list"
  date_range :: "int list"

text \<open>What one run derives and hands to the charts.\<close>

record 'f derived =
  the_filtered_data :: ts_table
  the_global_data :: "date_total list"
  the_region_deaths :: "(string \<times> 'f) list"
  the_top5 :: "string list"
  the_pies :: "pie list"

text \<open>\<^verbatim>\<open>xs[i]\<close> for a non-negative \<open>i\<close>.\<close>

definition subscript :: "'a list \<Rightarrow> nat \<Rightarrow> error + 'a" where
  "subscript xs i = (if i < length xs then Inr (xs ! i) else Inl IndexError)"

text \<open>
  A run takes the cached table \<^verbatim>\<open>data\<close> and the sidebar values; it returns the table
  together with what it derived, or the exception that ended it.
\<close>

definition run_script :: "'f library \<Rightarrow> sidebar \<Rightarrow> ts_table \<Rightarrow> error + (ts_table \<times> 'f derived)" where
  "run_script lib sb data =
     (case subscript (date_range sb) 0 of
        Inl e \<Rightarrow> Inl e
      | Inr start_date \<Rightarrow>
          (case subscript (date_range sb) 1 of
             Inl e \<Rightarrow> Inl e
           | Inr end_date \<Rightarrow>
               (let fd = filtered_data data (selected_region sb) (selected_country sb)
                           start_date end_date;
                    gd = global_data fd;
                    rd = region_deaths lib fd;
                    t5 = top5 lib fd
                in case pie_loop fd (enumerate 0 t5) of
                     Inl e \<Rightarrow> Inl e
                   | Inr drawn \<Rightarrow>
                       Inr (data, \<lparr>the_filtered_data = fd, the_global_data = gd,
                                   the_region_deaths = rd, the_top5 = t5,
                                   the_pies = drawn\<rparr>))))"

subsection \<open>The same run on a store of objects\<close>

text \<open>
  A table in Python is an object that several names may share and that a statement may
  change in place. To see what a run writes, this second model of the run keeps its
  objects in a store: the list of all objects made so far, an address being a position in
  it. Making an object appends it to the store; changing one in place would replace the
  entry at its address. Both models derive the same values (lemma \<open>run_store_spec\<close>).
\<close>

datatype 'f object =
    DataFrame ts_table
  | Series ts_row
  | Totals "date_total list"
  | Means "(string \<times> 'f) list"
  | Names "string list"

type_synonym address = nat

type_synonym 'f store = "'f object list"


text \<open>The table an address holds; TypeError when it holds none.\<close>

definition frame_at :: "'f store \<Rightarrow> address \<Rightarrow> error + ts_table" where
  "frame_at st a =
     (if a < length st
      then (case st ! a of DataFrame t \<Rightarrow> Inr t | _ \<Rightarrow> Inl TypeError)
      else Inl TypeError)"







section \<open>Properties\<close>

subsection \<open>Masks and selections\<close>

lemma boolean_index_map: "boolean_index df (map p df) = filter p df"
  by (induction df) (simp_all add: boolean_index_def)

lemma isin_map: "isin (map f df) vals = map (\<lambda>r. f r \<in> Some ` set vals) df"
  by (auto simp: isin_def split: option.splits)

lemma between_map:
  "between (map f df) l r = map (\<lambda>x. \<exists>d. f x = Some d \<and> l \<le> d \<and> d \<le> r) df"
  by (auto simp: between_def split: option.splits)

lemma mask_and_map: "mask_and (map p df) (map q df) = map (\<lambda>r. p r \<and> q r) df"
  by (induction df) (simp_all add: mask_and_def)

lemma eq_mask_map: "eq_mask (map f df) v = map (\<lambda>r. f r = Some v) df"
  by (simp add: eq_mask_def)

lemma filtered_data_filter:
  "filtered_data data R C s e =
     filter (\<lambda>r. WHO_Region r \<in> Some ` set R
                \<and> (\<exists>d. Date r = Some d \<and> s \<le> d \<and> d \<le> e)
                \<and> (C = [] \<or> Country_Region r \<in> Some ` set C)) data"
proof -
  let ?sel = "\<lambda>r. WHO_Region r \<in> Some ` set R \<and> (\<exists>d. Date r = Some d \<and> s \<le> d \<and> d \<le> e)"
  have first: "boolean_index data
                 (mask_and (isin (map WHO_Region data) R) (between (map Date data) s e))
               = filter ?sel data"
    by (simp only: isin_map between_map mask_and_map boolean_index_map)
  show ?thesis
  proof (cases "C = []")
    case True
    then show ?thesis
      by (simp add: filtered_data_def first)
  next
    case False
    have "filtered_data data R C s e
            = filter (\<lambda>r. Country_Region r \<in> Some ` set C) (filter ?sel data)"
      using False unfolding filtered_data_def Let_def first
      by (simp add: isin_map boolean_index_map)
    also have "\<dots> = filter (\<lambda>r. ?sel r \<and> Country_Region r \<in> Some ` set C) data"
      by simp
    finally show ?thesis
      using False by simp
  qed
qed

text \<open>
  C2. For every region selection \<open>R\<close>, country selection \<open>C\<close> and date range \<open>[s, e]\<close>, the
  filtered view holds exactly the rows of the time-series table, in table order, whose WHO
  Region is in \<open>R\<close> and whose date lies in \<open>[s, e]\<close> with both endpoints included; when \<open>C\<close>
  is not empty the rows are further restricted to the countries in \<open>C\<close>, and an empty \<open>C\<close>
  restricts nothing. It holds for every \<open>s\<close> and \<open>e\<close>, so in particular for \<open>s \<le> e\<close>.
\<close>

theorem filtered_data_exact:
  "filtered_data data R C s e =
     filter (\<lambda>r. WHO_Region r \<in> Some ` set R
                \<and> (\<exists>d. Date r = Some d \<and> s \<le> d \<and> d \<le> e)
                \<and> (C = [] \<or> Country_Region r \<in> Some ` set C)) data"
  by (rule filtered_data_filter)

theorem filtered_data_exact_witness:
  "filtered_data
     [\<lparr>Country_Region = Some ''Italy'', WHO_Region = Some ''Europe'', Date = Some 737485,
        Confirmed = 100, Deaths = 2, Recovered = 1, Active = 97\<rparr>,
      \<lparr>Country_Region = Some ''Peru'', WHO_Region = Some ''Americas'', Date = Some 737485,
        Confirmed = 7, Deaths = 0, Recovered = 0, Active = 7\<rparr>,
      \<lparr>Country_Region = Some ''Italy'', WHO_Region = Some ''Europe'', Date = Some 737487,
        Confirmed = 190, Deaths = 5, Recovered = 9, Active = 176\<rparr>]
     [''Europe''] [] 737485 737486
   = [\<lparr>Country_Region = Some ''Italy'', WHO_Region = Some ''Europe'', Date = Some 737485,
        Confirmed = 100, Deaths = 2, Recovered = 1, Active = 97\<rparr>]"
  using filtered_data_exact
    [of "[\<lparr>Country_Region = Some ''Italy'', WHO_Region = Some ''Europe'', Date = Some 737485,
        Confirmed = 100, Deaths = 2, Recovered = 1, Active = 97\<rparr>,
      \<lparr>Country_Region = Some ''Peru'', WHO_Region = Some ''Americas'', Date = Some 737485,
        Confirmed = 7, Deaths = 0, Recovered = 0, Active = 7\<rparr>,
      \<lparr>Country_Region = Some ''Italy'', WHO_Region = Some ''Europe'', Date = Some 737487,
        Confirmed = 190, Deaths = 5, Recovered = 9, Active = 176\<rparr>]"
        "[''Europe'']" "[]" 737485 737486]
  by simp

subsection \<open>Group keys\<close>


lemma set_dropna: "set (dropna xs) = {x. Some x \<in> set xs}"
  by (induction xs rule: dropna.induct) auto

lemma set_groupby_keys: "set (groupby_keys col) = {x. Some x \<in> set col}"
  by (simp add: groupby_keys_def set_dropna)

lemma sorted_groupby_keys: "sorted (groupby_keys col)"
  by (simp add: groupby_keys_def)

lemma distinct_groupby_keys: "distinct (groupby_keys col)"
  by (simp add: groupby_keys_def)

lemma map_on_Date_global_data: "map on_Date (global_data fd) = groupby_keys (map Date fd)"
  by (simp add: global_data_def Let_def comp_def)

subsection \<open>The per-date totals\<close>

lemma wrap64_add_left: "wrap64 (wrap64 a + x) = wrap64 (a + x)"
proof -
  have "(wrap64 a + x + 2 ^ 63) mod 2 ^ 64 = ((a + 2 ^ 63) mod 2 ^ 64 + x) mod 2 ^ 64"
    by (simp add: wrap64_def)
  also have "\<dots> = (a + 2 ^ 63 + x) mod 2 ^ 64"
    by (rule mod_add_left_eq)
  finally have "(wrap64 a + x + 2 ^ 63) mod 2 ^ 64 = (a + x + 2 ^ 63) mod 2 ^ 64"
    by (simp add: algebra_simps)
  then show ?thesis
    unfolding wrap64_def [of "wrap64 a + x"] wrap64_def [of "a + x"] by simp
qed

lemma wrap64_id: "in_int64 x \<Longrightarrow> wrap64 x = x"
  by (simp add: wrap64_def in_int64_def)

lemma in_int64_wrap64: "in_int64 (wrap64 x)"
proof -
  have "0 \<le> (x + 2 ^ 63) mod (2 ^ 64 :: int)" and "(x + 2 ^ 63) mod (2 ^ 64 :: int) < 2 ^ 64"
    by simp_all
  then show ?thesis
    by (simp add: wrap64_def in_int64_def)
qed

lemma fold_wrap64: "fold (\<lambda>x acc. wrap64 (acc + x)) xs (wrap64 a) = wrap64 (a + sum_list xs)"
proof (induction xs arbitrary: a)
  case Nil
  show ?case by simp
next
  case (Cons x xs)
  have "fold (\<lambda>x acc. wrap64 (acc + x)) (x # xs) (wrap64 a)
          = fold (\<lambda>x acc. wrap64 (acc + x)) xs (wrap64 (a + x))"
    by (simp add: wrap64_add_left)
  also have "\<dots> = wrap64 (a + x + sum_list xs)"
    by (rule Cons.IH)
  finally show ?case
    by (simp add: add.assoc)
qed

lemma sum_int64_wrap: "sum_int64 xs = wrap64 (sum_list xs)"
proof -
  have "wrap64 0 = 0"
    by (simp add: wrap64_def)
  then have "sum_int64 xs = fold (\<lambda>x acc. wrap64 (acc + x)) xs (wrap64 0)"
    by (simp add: sum_int64_def)
  then show ?thesis
    by (simp add: fold_wrap64)
qed

text \<open>
  C4. The per-date global total has one row for every date present in the filtered view and
  for no other, in ascending date order. The row of a date holds the int64 sums of
  Confirmed, of Deaths and of Recovered over all rows of the view with that date: each is
  the sum wrapped to 64 bits, and it is the sum itself whenever the sum lies in the int64
  range, as sums of case counts do. In particular, for a table of two rows for Italy,
  2020-03-01 (day 737485) with 100 confirmed and 2020-03-02 (day 737486) with 150,
  filtered to Italy's region and the range of these two days, the per-date confirmed series
  is \<open>[100, 150]\<close> and its total is 250.
\<close>

theorem global_data_totals:
  "sorted (map on_Date (global_data fd)) \<and> distinct (map on_Date (global_data fd))
   \<and> set (map on_Date (global_data fd)) = {d. \<exists>r \<in> set fd. Date r = Some d}
   \<and> (\<forall>g \<in> set (global_data fd).
        sum_Confirmed g = wrap64 (\<Sum>r\<leftarrow>filter (\<lambda>r. Date r = Some (on_Date g)) fd. Confirmed r)
      \<and> sum_Deaths g = wrap64 (\<Sum>r\<leftarrow>filter (\<lambda>r. Date r = Some (on_Date g)) fd. Deaths r)
      \<and> sum_Recovered g = wrap64 (\<Sum>r\<leftarrow>filter (\<lambda>r. Date r = Some (on_Date g)) fd. Recovered r))
   \<and> (\<forall>g \<in> set (global_data fd).
        (in_int64 (\<Sum>r\<leftarrow>filter (\<lambda>r. Date r = Some (on_Date g)) fd. Confirmed r) \<longrightarrow>
           sum_Confirmed g = (\<Sum>r\<leftarrow>filter (\<lambda>r. Date r = Some (on_Date g)) fd. Confirmed r))
      \<and> (in_int64 (\<Sum>r\<leftarrow>filter (\<lambda>r. Date r = Some (on_Date g)) fd. Deaths r) \<longrightarrow>
           sum_Deaths g = (\<Sum>r\<leftarrow>filter (\<lambda>r. Date r = Some (on_Date g)) fd. Deaths r))
      \<and> (in_int64 (\<Sum>r\<leftarrow>filter (\<lambda>r. Date r = Some (on_Date g)) fd. Recovered r) \<longrightarrow>
           sum_Recovered g = (\<Sum>r\<leftarrow>filter (\<lambda>r. Date r = Some (on_Date g)) fd. Recovered r)))
   \<and> map sum_Confirmed (global_data (filtered_data
        [\<lparr>Country_Region = Some ''Italy'', WHO_Region = Some region, Date = Some 737485,
           Confirmed = 100, Deaths = d1, Recovered = r1, Active = a1\<rparr>,
         \<lparr>Country_Region = Some ''Italy'', WHO_Region = Some region, Date = Some 737486,
           Confirmed = 150, Deaths = d2, Recovered = r2, Active = a2\<rparr>]
        [region] [] 737485 737486)) = [100, 150]
   \<and> sum_int64 (map sum_Confirmed (global_data (filtered_data
        [\<lparr>Country_Region = Some ''Italy'', WHO_Region = Some region, Date = Some 737485,
           Confirmed = 100, Deaths = d1, Recovered = r1, Active = a1\<rparr>,
         \<lparr>Country_Region = Some ''Italy'', WHO_Region = Some region, Date = Some 737486,
           Confirmed = 150, Deaths = d2, Recovered = r2, Active = a2\<rparr>]
        [region] [] 737485 737486))) = 250"
proof -
  have keys: "map on_Date (global_data fd) = groupby_keys (map Date fd)"
    by (rule map_on_Date_global_data)
  have present: "set (groupby_keys (map Date fd)) = {d. \<exists>r \<in> set fd. Date r = Some d}"
    by (force simp: set_groupby_keys image_iff)
  have sums: "\<forall>g \<in> set (global_data fd).
        sum_Confirmed g = wrap64 (\<Sum>r\<leftarrow>filter (\<lambda>r. Date r = Some (on_Date g)) fd. Confirmed r)
      \<and> sum_Deaths g = wrap64 (\<Sum>r\<leftarrow>filter (\<lambda>r. Date r = Some (on_Date g)) fd. Deaths r)
      \<and> sum_Recovered g = wrap64 (\<Sum>r\<leftarrow>filter (\<lambda>r. Date r = Some (on_Date g)) fd. Recovered r)"
    by (auto simp: global_data_def Let_def sum_int64_wrap)
  then have exact: "\<forall>g \<in> set (global_data fd).
        (in_int64 (\<Sum>r\<leftarrow>filter (\<lambda>r. Date r = Some (on_Date g)) fd. Confirmed r) \<longrightarrow>
           sum_Confirmed g = (\<Sum>r\<leftarrow>filter (\<lambda>r. Date r = Some (on_Date g)) fd. Confirmed r))
      \<and> (in_int64 (\<Sum>r\<leftarrow>filter (\<lambda>r. Date r = Some (on_Date g)) fd. Deaths r) \<longrightarrow>
           sum_Deaths g = (\<Sum>r\<leftarrow>filter (\<lambda>r. Date r = Some (on_Date g)) fd. Deaths r))
      \<and> (in_int64 (\<Sum>r\<leftarrow>filter (\<lambda>r. Date r = Some (on_Date g)) fd. Recovered r) \<longrightarrow>
           sum_Recovered g = (\<Sum>r\<leftarrow>filter (\<lambda>r. Date r = Some (on_Date g)) fd. Recovered r))"
    by (simp add: wrap64_id)
  let ?italy = "[\<lparr>Country_Region = Some ''Italy'', WHO_Region = Some region, Date = Some 737485,
           Confirmed = 100, Deaths = d1, Recovered = r1, Active = a1\<rparr>,
         \<lparr>Country_Region = Some ''Italy'', WHO_Region = Some region, Date = Some 737486,
           Confirmed = 150, Deaths = d2, Recovered = r2, Active = a2\<rparr>]"
  have view: "filtered_data ?italy [region] [] 737485 737486 = ?italy"
    by (simp add: filtered_data_filter)
  have series: "map sum_Confirmed (global_data ?italy) = [100, 150]"
    by (simp add: global_data_def groupby_keys_def sum_int64_def wrap64_def)
  have total: "sum_int64 [100, 150] = 250"
    by (simp add: sum_int64_def wrap64_def)
  show ?thesis
    unfolding view series keys present total
    using sums exact by (simp add: sorted_groupby_keys distinct_groupby_keys)
qed

theorem global_data_totals_witness:
  "in_int64 40 \<and> in_int64 210
   \<and> global_data
      [\<lparr>Country_Region = Some ''Italy'', WHO_Region = Some ''Europe'', Date = Some 737486,
         Confirmed = 150, Deaths = 5, Recovered = 9, Active = 136\<rparr>,
       \<lparr>Country_Region = Some ''Spain'', WHO_Region = Some ''Europe'', Date = Some 737485,
         Confirmed = 40, Deaths = 1, Recovered = 0, Active = 39\<rparr>,
       \<lparr>Country_Region = Some ''Spain'', WHO_Region = Some ''Europe'', Date = Some 737486,
         Confirmed = 60, Deaths = 2, Recovered = 3, Active = 55\<rparr>]
     = [\<lparr>on_Date = 737485, sum_Confirmed = 40, sum_Deaths = 1, sum_Recovered = 0\<rparr>,
        \<lparr>on_Date = 737486, sum_Confirmed = 210, sum_Deaths = 7, sum_Recovered = 12\<rparr>]"
proof -
  let ?fd = "[\<lparr>Country_Region = Some ''Italy'', WHO_Region = Some ''Europe'', Date = Some 737486,
         Confirmed = 150, Deaths = 5, Recovered = 9, Active = 136\<rparr>,
       \<lparr>Country_Region = Some ''Spain'', WHO_Region = Some ''Europe'', Date = Some 737485,
         Confirmed = 40, Deaths = 1, Recovered = 0, Active = 39\<rparr>,
       \<lparr>Country_Region = Some ''Spain'', WHO_Region = Some ''Europe'', Date = Some 737486,
         Confirmed = 60, Deaths = 2, Recovered = 3, Active = 55\<rparr>]"
  have totals: "global_data ?fd
     = [\<lparr>on_Date = 737485, sum_Confirmed = 40, sum_Deaths = 1, sum_Recovered = 0\<rparr>,
        \<lparr>on_Date = 737486, sum_Confirmed = 210, sum_Deaths = 7, sum_Recovered = 12\<rparr>]"
    by (simp add: global_data_def groupby_keys_def sum_int64_def wrap64_def)
  have small: "in_int64 40" "in_int64 210"
    by (simp_all add: in_int64_def)
  from global_data_totals [of ?fd] have "sorted (map on_Date (global_data ?fd))"
    by (rule conjunct1)
  with totals small show ?thesis
    by simp
qed

text \<open>
  Outside the range the total is the wrapped one: two rows of one date with
  5000000000000000000 confirmed each give -8446744073709551616.
\<close>

lemma global_data_wraps:
  "map sum_Confirmed (global_data
      [\<lparr>Country_Region = Some ''Italy'', WHO_Region = Some ''Europe'', Date = Some 737485,
         Confirmed = 5000000000000000000, Deaths = 0, Recovered = 0, Active = 0\<rparr>,
       \<lparr>Country_Region = Some ''Spain'', WHO_Region = Some ''Europe'', Date = Some 737485,
         Confirmed = 5000000000000000000, Deaths = 0, Recovered = 0, Active = 0\<rparr>])
   = [- 8446744073709551616]"
  by (simp add: global_data_def groupby_keys_def sum_int64_def wrap64_def)

subsection \<open>The ranking\<close>

lemma sorts_descending_mset: "sorts_descending srt \<Longrightarrow> mset (srt t) = mset t"
  by (simp add: sorts_descending_def)

lemma sorts_descending_set: "sorts_descending srt \<Longrightarrow> set (srt t) = set t"
  by (metis sorts_descending_mset mset_eq_setD)

lemma sorts_descending_sorted: "sorts_descending srt \<Longrightarrow> sorted (rev (map snd (srt t)))"
  by (simp add: sorts_descending_def)

lemma sorts_descending_keys:
  assumes "sorts_descending srt"
  shows "distinct (map fst (srt t)) \<longleftrightarrow> distinct (map fst t)"
proof -
  have "mset (map fst (srt t)) = mset (map fst t)"
    using sorts_descending_mset [OF assms, of t] by (metis mset_map)
  then show ?thesis
    by (rule mset_eq_imp_distinct_iff)
qed

lemma sorts_descending_order_keeping: "sorts_descending order_keeping_sort"
  by (simp add: sorts_descending_def order_keeping_sort_def rev_map)

lemma contract_example_library: "contract example_library"
  by (simp add: contract_def example_library_def sorts_descending_order_keeping)

lemma sorted_rev_take: "sorted (rev xs) \<Longrightarrow> sorted (rev (take n xs))"
proof -
  assume "sorted (rev xs)"
  then have "sorted (drop (length xs - n) (rev xs))"
    by (rule sorted_wrt_drop)
  then show ?thesis
    by (simp add: rev_take)
qed

lemma map_fst_max_confirmed: "map fst (max_confirmed fd) = groupby_keys (map Country_Region fd)"
  by (simp add: max_confirmed_def comp_def)

lemma snd_max_confirmed: "p \<in> set (max_confirmed fd) \<Longrightarrow> snd p = group_max fd (fst p)"
  by (auto simp: max_confirmed_def)

lemma countries_of_view:
  "set (groupby_keys (map Country_Region fd)) = {c. \<exists>r \<in> set fd. Country_Region r = Some c}"
  by (force simp: set_groupby_keys image_iff)

lemma length_top5: "length (top5 lib fd) \<le> 5"
  by (simp add: top5_def)

lemma top5_countries:
  assumes "sorts_descending (sort_values_Confirmed lib)"
  shows "set (top5 lib fd) \<subseteq> {c. \<exists>r \<in> set fd. Country_Region r = Some c}"
proof -
  have "set (top5 lib fd) \<subseteq> set (map fst (sort_values_Confirmed lib (max_confirmed fd)))"
    unfolding top5_def take_map [symmetric] by (rule set_take_subset)
  also have "\<dots> = set (map fst (max_confirmed fd))"
    by (simp add: sorts_descending_set [OF assms])
  finally show ?thesis
    by (simp only: map_fst_max_confirmed countries_of_view)
qed

text \<open>The grouped table, and with it the ranking, depends on the rows and not on their order.\<close>

lemma groupby_keys_rows: "set col' = set col \<Longrightarrow> groupby_keys col' = groupby_keys col"
proof -
  assume "set col' = set col"
  then have "set (groupby_keys col') = set (groupby_keys col)"
    by (simp add: set_groupby_keys)
  then show ?thesis
    using sorted_groupby_keys distinct_groupby_keys by (metis sorted_distinct_set_unique)
qed

lemma group_max_rows:
  assumes "set fd' = set fd"
  shows "group_max fd' c = group_max fd c"
proof -
  have "set (filter (\<lambda>r. Country_Region r = Some c) fd')
          = set (filter (\<lambda>r. Country_Region r = Some c) fd)"
    using assms by auto
  then have "set (map Confirmed (filter (\<lambda>r. Country_Region r = Some c) fd'))
          = set (map Confirmed (filter (\<lambda>r. Country_Region r = Some c) fd))"
    by (simp only: set_map)
  then show ?thesis
    by (simp only: group_max_def)
qed

lemma max_confirmed_rows:
  assumes rows: "set fd' = set fd"
  shows "max_confirmed fd' = max_confirmed fd"
proof -
  from rows have "set (map Country_Region fd') = set (map Country_Region fd)"
    by (simp only: set_map)
  then have keys: "groupby_keys (map Country_Region fd') = groupby_keys (map Country_Region fd)"
    by (rule groupby_keys_rows)
  have "group_max fd' = group_max fd"
    using group_max_rows [OF rows] by (rule ext)
  with keys show ?thesis
    by (simp only: max_confirmed_def)
qed

lemma top5_rows:
  assumes "set fd' = set fd"
  shows "top5 lib fd' = top5 lib fd"
  by (simp only: top5_def max_confirmed_rows [OF assms])

text \<open>
  C3 (as amended). For every filtered view, and whatever order the library's sort leaves
  rows of equal value in, the top-5 ranking has at most five entries, all different; each
  is a country of the view; the ranking is in descending order of the largest Confirmed of
  each country in the view, and no country left out has a larger maximum than a country
  listed. The order of countries with the same maximum is not the order of their rows in
  the view: the ranking is computed from the table of maxima alone, so two views with the
  same rows in different orders have the same ranking.
\<close>

theorem top5_ranking:
  assumes sort: "sorts_descending (sort_values_Confirmed lib)"
  shows "length (top5 lib fd) \<le> 5
   \<and> distinct (top5 lib fd)
   \<and> set (top5 lib fd) \<subseteq> {c. \<exists>r \<in> set fd. Country_Region r = Some c}
   \<and> sorted (rev (map (group_max fd) (top5 lib fd)))
   \<and> (\<forall>c \<in> {c. \<exists>r \<in> set fd. Country_Region r = Some c} - set (top5 lib fd).
        \<forall>c' \<in> set (top5 lib fd). group_max fd c \<le> group_max fd c')
   \<and> (\<forall>fd'. set fd' = set fd \<longrightarrow> top5 lib fd' = top5 lib fd)"
proof -
  let ?M = "max_confirmed fd"
  let ?L = "sort_values_Confirmed lib ?M"
  have keys: "map fst ?M = groupby_keys (map Country_Region fd)"
    by (rule map_fst_max_confirmed)
  have set_L: "set ?L = set ?M"
    using sort by (rule sorts_descending_set)
  have dist_M: "distinct (map fst ?M)"
    by (simp only: keys distinct_groupby_keys)
  have snd_L: "snd p = group_max fd (fst p)" if "p \<in> set ?L" for p
    using that by (simp add: set_L snd_max_confirmed)
  have dist_L: "distinct (map fst ?L)"
    using dist_M by (simp only: sorts_descending_keys [OF sort])
  have top: "top5 lib fd = map fst (take 5 ?L)"
    by (simp add: top5_def)
  have vals: "map (group_max fd) (map fst xs) = map snd xs" if "set xs \<subseteq> set ?L" for xs
    using that snd_L by (induction xs) auto
  have len: "length (top5 lib fd) \<le> 5"
    by (rule length_top5)
  have dist: "distinct (top5 lib fd)"
    unfolding top take_map [symmetric] using dist_L by (rule distinct_take)
  have sub: "set (top5 lib fd) \<subseteq> {c. \<exists>r \<in> set fd. Country_Region r = Some c}"
    using sort by (rule top5_countries)
  have desc_L: "sorted (rev (map snd ?L))"
    using sort by (rule sorts_descending_sorted)
  have desc: "sorted (rev (map (group_max fd) (top5 lib fd)))"
  proof -
    have "map (group_max fd) (top5 lib fd) = take 5 (map snd ?L)"
      unfolding top using vals [OF set_take_subset, of 5] by (simp add: take_map)
    then show ?thesis
      using desc_L by (simp add: sorted_rev_take)
  qed
  have best: "\<forall>c \<in> {c. \<exists>r \<in> set fd. Country_Region r = Some c} - set (top5 lib fd).
        \<forall>c' \<in> set (top5 lib fd). group_max fd c \<le> group_max fd c'"
  proof (intro ballI)
    fix c c'
    assume c: "c \<in> {c. \<exists>r \<in> set fd. Country_Region r = Some c} - set (top5 lib fd)"
      and c': "c' \<in> set (top5 lib fd)"
    have "set (map fst ?L) = {c. \<exists>r \<in> set fd. Country_Region r = Some c}"
      using countries_of_view [of fd] by (simp only: set_map set_L keys [symmetric])
    with c have "c \<in> set (map fst ?L)"
      by blast
    then obtain p where p: "p \<in> set ?L" "fst p = c"
      by auto
    from c have "c \<notin> fst ` set (take 5 ?L)"
      by (simp add: top)
    with p have "p \<notin> set (take 5 ?L)"
      by auto
    with p have p_drop: "p \<in> set (drop 5 ?L)"
      by (metis Un_iff append_take_drop_id set_append)
    from c' obtain q where q: "q \<in> set (take 5 ?L)" "fst q = c'"
      by (auto simp: top)
    have "sorted_wrt (\<lambda>x y. x \<ge> y) (map snd ?L)"
      using desc_L by (simp add: sorted_wrt_rev)
    then have "sorted_wrt (\<lambda>x y. x \<ge> y) (map snd (take 5 ?L) @ map snd (drop 5 ?L))"
      by (simp only: map_append [symmetric] append_take_drop_id)
    then have "\<forall>x \<in> set (map snd (take 5 ?L)). \<forall>y \<in> set (map snd (drop 5 ?L)). x \<ge> y"
      by (simp only: sorted_wrt_append) blast
    then have "snd p \<le> snd q"
      using p_drop q by simp
    moreover have "q \<in> set ?L"
      using q by (meson in_set_takeD)
    ultimately show "group_max fd c \<le> group_max fd c'"
      using p q snd_L [of p] snd_L [of q] by simp
  qed
  have rows: "\<forall>fd'. set fd' = set fd \<longrightarrow> top5 lib fd' = top5 lib fd"
    using top5_rows by blast
  from len dist sub desc best rows show ?thesis
    by blast
qed

theorem top5_ranking_witness:
  "sorts_descending (sort_values_Confirmed example_library)
   \<and> length (top5 example_library
      [\<lparr>Country_Region = Some ''Peru'', WHO_Region = Some ''Americas'', Date = Some 737485,
         Confirmed = 7, Deaths = 0, Recovered = 0, Active = 7\<rparr>,
       \<lparr>Country_Region = Some ''Italy'', WHO_Region = Some ''Europe'', Date = Some 737485,
         Confirmed = 100, Deaths = 2, Recovered = 1, Active = 97\<rparr>,
       \<lparr>Country_Region = Some ''Chile'', WHO_Region = Some ''Americas'', Date = Some 737485,
         Confirmed = 9, Deaths = 0, Recovered = 1, Active = 8\<rparr>,
       \<lparr>Country_Region = Some ''Italy'', WHO_Region = Some ''Europe'', Date = Some 737486,
         Confirmed = 150, Deaths = 5, Recovered = 9, Active = 136\<rparr>]) \<le> 5
   \<and> top5 example_library
      [\<lparr>Country_Region = Some ''Peru'', WHO_Region = Some ''Americas'', Date = Some 737485,
         Confirmed = 7, Deaths = 0, Recovered = 0, Active = 7\<rparr>,
       \<lparr>Country_Region = Some ''Italy'', WHO_Region = Some ''Europe'', Date = Some 737485,
         Confirmed = 100, Deaths = 2, Recovered = 1, Active = 97\<rparr>,
       \<lparr>Country_Region = Some ''Chile'', WHO_Region = Some ''Americas'', Date = Some 737485,
         Confirmed = 9, Deaths = 0, Recovered = 1, Active = 8\<rparr>,
       \<lparr>Country_Region = Some ''Italy'', WHO_Region = Some ''Europe'', Date = Some 737486,
         Confirmed = 150, Deaths = 5, Recovered = 9, Active = 136\<rparr>]
     = [''Italy'', ''Chile'', ''Peru'']"
proof -
  let ?fd = "[\<lparr>Country_Region = Some ''Peru'', WHO_Region = Some ''Americas'', Date = Some 737485,
         Confirmed = 7, Deaths = 0, Recovered = 0, Active = 7\<rparr>,
       \<lparr>Country_Region = Some ''Italy'', WHO_Region = Some ''Europe'', Date = Some 737485,
         Confirmed = 100, Deaths = 2, Recovered = 1, Active = 97\<rparr>,
       \<lparr>Country_Region = Some ''Chile'', WHO_Region = Some ''Americas'', Date = Some 737485,
         Confirmed = 9, Deaths = 0, Recovered = 1, Active = 8\<rparr>,
       \<lparr>Country_Region = Some ''Italy'', WHO_Region = Some ''Europe'', Date = Some 737486,
         Confirmed = 150, Deaths = 5, Recovered = 9, Active = 136\<rparr>]"
  have sort: "sorts_descending (sort_values_Confirmed example_library)"
    by (simp add: example_library_def sorts_descending_order_keeping)
  from top5_ranking [OF sort, of ?fd] have "length (top5 example_library ?fd) \<le> 5"
    by (rule conjunct1)
  moreover have "top5 example_library ?fd = [''Italy'', ''Chile'', ''Peru'']"
    by code_simp
  ultimately show ?thesis
    using sort by simp
qed

text \<open>
  The claim as stated fails whatever order the sort leaves equal values in. Take a view
  with Zambia's row before Algeria's, both with 10 confirmed, and the view with the two
  rows exchanged. Ties broken by row order would rank Zambia first in the one and Algeria
  first in the other; no library does both, since both views have the same table of maxima.
\<close>

theorem top5_row_order_counterexample:
  "\<not> (\<exists>lib :: 'f library. top5 lib
      [\<lparr>Country_Region = Some ''Zambia'', WHO_Region = Some ''Africa'', Date = Some 737485,
         Confirmed = 10, Deaths = 0, Recovered = 1, Active = 9\<rparr>,
       \<lparr>Country_Region = Some ''Algeria'', WHO_Region = Some ''Africa'', Date = Some 737485,
         Confirmed = 10, Deaths = 1, Recovered = 2, Active = 7\<rparr>]
     = [''Zambia'', ''Algeria'']
   \<and> top5 lib
      [\<lparr>Country_Region = Some ''Algeria'', WHO_Region = Some ''Africa'', Date = Some 737485,
         Confirmed = 10, Deaths = 1, Recovered = 2, Active = 7\<rparr>,
       \<lparr>Country_Region = Some ''Zambia'', WHO_Region = Some ''Africa'', Date = Some 737485,
         Confirmed = 10, Deaths = 0, Recovered = 1, Active = 9\<rparr>]
     = [''Algeria'', ''Zambia''])"
proof
  let ?v1 = "[\<lparr>Country_Region = Some ''Zambia'', WHO_Region = Some ''Africa'', Date = Some 737485,
         Confirmed = 10, Deaths = 0, Recovered = 1, Active = 9\<rparr>,
       \<lparr>Country_Region = Some ''Algeria'', WHO_Region = Some ''Africa'', Date = Some 737485,
         Confirmed = 10, Deaths = 1, Recovered = 2, Active = 7\<rparr>]"
  let ?v2 = "[\<lparr>Country_Region = Some ''Algeria'', WHO_Region = Some ''Africa'', Date = Some 737485,
         Confirmed = 10, Deaths = 1, Recovered = 2, Active = 7\<rparr>,
       \<lparr>Country_Region = Some ''Zambia'', WHO_Region = Some ''Africa'', Date = Some 737485,
         Confirmed = 10, Deaths = 0, Recovered = 1, Active = 9\<rparr>]"
  assume "\<exists>lib :: 'f library. top5 lib ?v1 = [''Zambia'', ''Algeria''] \<and> top5 lib ?v2 = [''Algeria'', ''Zambia'']"
  then obtain lib :: "'f library"
    where first: "top5 lib ?v1 = [''Zambia'', ''Algeria'']"
      and second: "top5 lib ?v2 = [''Algeria'', ''Zambia'']"
    by blast
  have "set ?v1 = set ?v2"
    by (simp add: insert_commute)
  then have "top5 lib ?v1 = top5 lib ?v2"
    by (rule top5_rows)
  with first second show False
    by simp
qed

subsection \<open>The loop over the ranking\<close>

lemma subset_filter: "subset fd c = filter (\<lambda>r. Country_Region r = Some c) fd"
  by (simp add: subset_def eq_mask_map boolean_index_map)

lemma subset_empty_iff: "subset fd c = [] \<longleftrightarrow> \<not> (\<exists>r \<in> set fd. Country_Region r = Some c)"
  by (auto simp: subset_filter filter_empty_conv)

lemma pie_loop_charts:
  "\<forall>p \<in> set ics. fst p < 5 \<Longrightarrow>
   pie_loop fd ics =
     Inr (map (\<lambda>(i, c). \<lparr>in_column = i, of_country = c,
                          pie_values = [Active (last (subset fd c)),
                                        Recovered (last (subset fd c)),
                                        Deaths (last (subset fd c))]\<rparr>)
              (filter (\<lambda>(i, c). subset fd c \<noteq> []) ics))"
proof (induction ics)
  case Nil
  then show ?case by simp
next
  case (Cons ic ics)
  obtain i c where ic: "ic = (i, c)"
    by (cases ic)
  from Cons.prems have "i < 5" and "\<forall>p \<in> set ics. fst p < 5"
    by (simp_all add: ic)
  then show ?case
    by (simp add: ic Let_def Cons.IH)
qed

lemma enumerate_index_bound: "(i, c) \<in> set (enumerate n cs) \<Longrightarrow> i < n + length cs"
  by (auto simp: in_set_enumerate_eq)

text \<open>
  C9. The loop runs over any list of at most five countries (the length of a top-5 list)
  without an exception; a country with no row in the filtered view is skipped, and every
  other country of the list still gets its chart, in the column of its position in the list
  and with the values of the last of its rows.
\<close>

theorem pie_loop_skips_empty:
  "length cs \<le> 5 \<Longrightarrow>
   pie_loop fd (enumerate 0 cs) =
     Inr (map (\<lambda>(i, c). \<lparr>in_column = i, of_country = c,
                          pie_values = [Active (last (subset fd c)),
                                        Recovered (last (subset fd c)),
                                        Deaths (last (subset fd c))]\<rparr>)
              (filter (\<lambda>(i, c). \<exists>r \<in> set fd. Country_Region r = Some c) (enumerate 0 cs)))"
proof -
  assume len: "length cs \<le> 5"
  have "\<forall>p \<in> set (enumerate 0 cs). fst p < 5"
    using len by (auto dest: enumerate_index_bound)
  then show ?thesis
    by (simp add: pie_loop_charts subset_empty_iff)
qed


theorem pie_loop_skips_empty_witness:
  "length [''Italy'', ''Atlantis'', ''Spain''] \<le> 5
   \<and> pie_loop
     [\<lparr>Country_Region = Some ''Italy'', WHO_Region = Some ''Europe'', Date = Some 737485,
       Confirmed = 100, Deaths = 2, Recovered = 1, Active = 97\<rparr>,
      \<lparr>Country_Region = Some ''Spain'', WHO_Region = Some ''Europe'', Date = Some 737485,
       Confirmed = 40, Deaths = 1, Recovered = 0, Active = 39\<rparr>,
      \<lparr>Country_Region = Some ''Italy'', WHO_Region = Some ''Europe'', Date = Some 737486,
       Confirmed = 150, Deaths = 5, Recovered = 9, Active = 136\<rparr>]
     (enumerate 0 [''Italy'', ''Atlantis'', ''Spain''])
   = Inr [\<lparr>in_column = 0, of_country = ''Italy'', pie_values = [136, 9, 5]\<rparr>,
          \<lparr>in_column = 2, of_country = ''Spain'', pie_values = [39, 0, 1]\<rparr>]"
proof -
  have len: "length [''Italy'', ''Atlantis'', ''Spain''] \<le> 5"
    by simp
  from pie_loop_skips_empty [OF len] show ?thesis
    by (simp add: subset_filter)
qed

subsection \<open>The last row of a country\<close>

lemma dropna_append: "dropna (xs @ ys) = dropna xs @ dropna ys"
  by (induction xs rule: dropna.induct) simp_all

lemma sorted_dates_filter:
  "sorted (dropna (map Date xs)) \<Longrightarrow> sorted (dropna (map Date (filter P xs)))"
proof (induction xs)
  case Nil
  then show ?case by simp
next
  case (Cons x xs)
  have sub: "set (dropna (map Date (filter P xs))) \<subseteq> set (dropna (map Date xs))"
    by (auto simp: set_dropna)
  show ?case
  proof (cases "Date x")
    case None
    with Cons show ?thesis by simp
  next
    case (Some d)
    with Cons sub show ?thesis by auto
  qed
qed

lemma last_row_latest:
  assumes sorted: "sorted (dropna (map Date xs))"
    and nonempty: "xs \<noteq> []"
    and dated: "\<forall>r \<in> set xs. \<exists>d. Date r = Some d"
  shows "\<exists>d'. Date (last xs) = Some d' \<and> (\<forall>r \<in> set xs. \<exists>d. Date r = Some d \<and> d \<le> d')"
proof -
  from nonempty have split: "xs = butlast xs @ [last xs]"
    by simp
  from nonempty dated obtain d' where d': "Date (last xs) = Some d'"
    by (meson last_in_set)
  have "dropna (map Date xs) = dropna (map Date (butlast xs)) @ [d']"
    by (subst split) (simp add: dropna_append d')
  with sorted have before: "\<forall>d \<in> set (dropna (map Date (butlast xs))). d \<le> d'"
    by (simp add: sorted_append)
  have "\<exists>d. Date r = Some d \<and> d \<le> d'" if "r \<in> set xs" for r
  proof -
    from that dated obtain d where d: "Date r = Some d"
      by blast
    from that split have "r \<in> set (butlast xs) \<or> r = last xs"
      by (metis Un_iff empty_iff insert_iff list.set(1) list.set(2) set_append)
    then have "d \<le> d'"
    proof
      assume "r \<in> set (butlast xs)"
      then have "d \<in> set (dropna (map Date (butlast xs)))"
        using d by (force simp: set_dropna image_iff)
      with before show ?thesis by blast
    next
      assume "r = last xs"
      with d d' show ?thesis by simp
    qed
    with d show ?thesis by blast
  qed
  with d' show ?thesis by blast
qed

lemma sorts_descending_single: "sorts_descending srt \<Longrightarrow> srt [x] = [x]"
proof -
  assume "sorts_descending srt"
  then have "mset (srt [x]) = mset [x]"
    by (rule sorts_descending_mset)
  then show ?thesis
    by (cases "srt [x]") auto
qed

text \<open>
  C5 (as amended). For each country of the top-5 list of a filtered view, the
  Active/Recovered/Deaths values of its chart are those of the last row, in table order, of
  the view's rows for that country, and there is such a row. When the dated rows of the
  time-series table are in ascending date order, that row carries the latest date of the
  country's rows in the view. This holds whatever order the library's sort leaves rows of
  equal value in.
\<close>

theorem last_row_in_table_order:
  assumes sort: "sorts_descending (sort_values_Confirmed lib)"
    and view: "fd = filtered_data data R C s e"
  shows "pie_loop fd (enumerate 0 (top5 lib fd)) =
           Inr (map (\<lambda>(i, c). \<lparr>in_column = i, of_country = c,
                                pie_values = [Active (last (subset fd c)),
                                              Recovered (last (subset fd c)),
                                              Deaths (last (subset fd c))]\<rparr>)
                    (enumerate 0 (top5 lib fd)))
         \<and> (\<forall>c \<in> set (top5 lib fd). subset fd c \<noteq> [])
         \<and> (sorted (dropna (map Date data)) \<longrightarrow>
              (\<forall>c \<in> set (top5 lib fd).
                 \<exists>d'. Date (last (subset fd c)) = Some d'
                    \<and> (\<forall>r \<in> set (subset fd c). \<exists>d. Date r = Some d \<and> d \<le> d')))"
proof -
  have rows: "subset fd c \<noteq> []" if "c \<in> set (top5 lib fd)" for c
    using that top5_countries [OF sort, of fd] by (auto simp: subset_empty_iff)
  have "\<forall>p \<in> set (enumerate 0 (top5 lib fd)). fst p < 5"
    using length_top5 [of lib fd] by (auto dest: enumerate_index_bound)
  moreover have "filter (\<lambda>(i, c). subset fd c \<noteq> []) (enumerate 0 (top5 lib fd))
                   = enumerate 0 (top5 lib fd)"
    by (rule filter_True) (auto simp: in_set_enumerate_eq rows)
  ultimately have charts: "pie_loop fd (enumerate 0 (top5 lib fd)) =
           Inr (map (\<lambda>(i, c). \<lparr>in_column = i, of_country = c,
                                pie_values = [Active (last (subset fd c)),
                                              Recovered (last (subset fd c)),
                                              Deaths (last (subset fd c))]\<rparr>)
                    (enumerate 0 (top5 lib fd)))"
    by (simp add: pie_loop_charts)
  have latest: "\<exists>d'. Date (last (subset fd c)) = Some d'
                  \<and> (\<forall>r \<in> set (subset fd c). \<exists>d. Date r = Some d \<and> d \<le> d')"
    if sorted: "sorted (dropna (map Date data))" and c: "c \<in> set (top5 lib fd)" for c
  proof (rule last_row_latest)
    have "sorted (dropna (map Date fd))"
      unfolding view filtered_data_filter using sorted by (rule sorted_dates_filter)
    then show "sorted (dropna (map Date (subset fd c)))"
      unfolding subset_filter by (rule sorted_dates_filter)
    show "subset fd c \<noteq> []"
      using c by (rule rows)
    show "\<forall>r \<in> set (subset fd c). \<exists>d. Date r = Some d"
      by (auto simp: subset_filter view filtered_data_filter)
  qed
  from charts rows latest show ?thesis
    by blast
qed

theorem last_row_in_table_order_witness:
  "sorts_descending (sort_values_Confirmed example_library)
   \<and> sorted (dropna (map Date
     [\<lparr>Country_Region = Some ''Italy'', WHO_Region = Some ''Europe'', Date = Some 737485,
       Confirmed = 100, Deaths = 2, Recovered = 1, Active = 97\<rparr>,
      \<lparr>Country_Region = Some ''Spain'', WHO_Region = Some ''Europe'', Date = Some 737485,
       Confirmed = 40, Deaths = 1, Recovered = 0, Active = 39\<rparr>,
      \<lparr>Country_Region = Some ''Italy'', WHO_Region = Some ''Europe'', Date = Some 737486,
       Confirmed = 150, Deaths = 5, Recovered = 9, Active = 136\<rparr>,
      \<lparr>Country_Region = Some ''Spain'', WHO_Region = Some ''Europe'', Date = Some 737486,
       Confirmed = 60, Deaths = 2, Recovered = 3, Active = 55\<rparr>]))
   \<and> filtered_data
     [\<lparr>Country_Region = Some ''Italy'', WHO_Region = Some ''Europe'', Date = Some 737485,
       Confirmed = 100, Deaths = 2, Recovered = 1, Active = 97\<rparr>,
      \<lparr>Country_Region = Some ''Spain'', WHO_Region = Some ''Europe'', Date = Some 737485,
       Confirmed = 40, Deaths = 1, Recovered = 0, Active = 39\<rparr>,
      \<lparr>Country_Region = Some ''Italy'', WHO_Region = Some ''Europe'', Date = Some 737486,
       Confirmed = 150, Deaths = 5, Recovered = 9, Active = 136\<rparr>,
      \<lparr>Country_Region = Some ''Spain'', WHO_Region = Some ''Europe'', Date = Some 737486,
       Confirmed = 60, Deaths = 2, Recovered = 3, Active = 55\<rparr>]
     [''Europe''] [''Italy''] 737485 737486
   = [\<lparr>Country_Region = Some ''Italy'', WHO_Region = Some ''Europe'', Date = Some 737485,
       Confirmed = 100, Deaths = 2, Recovered = 1, Active = 97\<rparr>,
      \<lparr>Country_Region = Some ''Italy'', WHO_Region = Some ''Europe'', Date = Some 737486,
       Confirmed = 150, Deaths = 5, Recovered = 9, Active = 136\<rparr>]
   \<and> pie_loop
     [\<lparr>Country_Region = Some ''Italy'', WHO_Region = Some ''Europe'', Date = Some 737485,
       Confirmed = 100, Deaths = 2, Recovered = 1, Active = 97\<rparr>,
      \<lparr>Country_Region = Some ''Italy'', WHO_Region = Some ''Europe'', Date = Some 737486,
       Confirmed = 150, Deaths = 5, Recovered = 9, Active = 136\<rparr>]
     (enumerate 0 (top5 example_library
     [\<lparr>Country_Region = Some ''Italy'', WHO_Region = Some ''Europe'', Date = Some 737485,
       Confirmed = 100, Deaths = 2, Recovered = 1, Active = 97\<rparr>,
      \<lparr>Country_Region = Some ''Italy'', WHO_Region = Some ''Europe'', Date = Some 737486,
       Confirmed = 150, Deaths = 5, Recovered = 9, Active = 136\<rparr>]))
   = Inr [\<lparr>in_column = 0, of_country = ''Italy'', pie_values = [136, 9, 5]\<rparr>]"
proof (intro conjI)
  let ?fd = "[\<lparr>Country_Region = Some ''Italy'', WHO_Region = Some ''Europe'', Date = Some 737485,
       Confirmed = 100, Deaths = 2, Recovered = 1, Active = 97\<rparr>,
      \<lparr>Country_Region = Some ''Italy'', WHO_Region = Some ''Europe'', Date = Some 737486,
       Confirmed = 150, Deaths = 5, Recovered = 9, Active = 136\<rparr>]"
  show sort: "sorts_descending (sort_values_Confirmed example_library)"
    by (simp add: example_library_def sorts_descending_order_keeping)
  show "sorted (dropna (map Date
     [\<lparr>Country_Region = Some ''Italy'', WHO_Region = Some ''Europe'', Date = Some 737485,
       Confirmed = 100, Deaths = 2, Recovered = 1, Active = 97\<rparr>,
      \<lparr>Country_Region = Some ''Spain'', WHO_Region = Some ''Europe'', Date = Some 737485,
       Confirmed = 40, Deaths = 1, Recovered = 0, Active = 39\<rparr>,
      \<lparr>Country_Region = Some ''Italy'', WHO_Region = Some ''Europe'', Date = Some 737486,
       Confirmed = 150, Deaths = 5, Recovered = 9, Active = 136\<rparr>,
      \<lparr>Country_Region = Some ''Spain'', WHO_Region = Some ''Europe'', Date = Some 737486,
       Confirmed = 60, Deaths = 2, Recovered = 3, Active = 55\<rparr>]))"
    by simp
  show "filtered_data
     [\<lparr>Country_Region = Some ''Italy'', WHO_Region = Some ''Europe'', Date = Some 737485,
       Confirmed = 100, Deaths = 2, Recovered = 1, Active = 97\<rparr>,
      \<lparr>Country_Region = Some ''Spain'', WHO_Region = Some ''Europe'', Date = Some 737485,
       Confirmed = 40, Deaths = 1, Recovered = 0, Active = 39\<rparr>,
      \<lparr>Country_Region = Some ''Italy'', WHO_Region = Some ''Europe'', Date = Some 737486,
       Confirmed = 150, Deaths = 5, Recovered = 9, Active = 136\<rparr>,
      \<lparr>Country_Region = Some ''Spain'', WHO_Region = Some ''Europe'', Date = Some 737486,
       Confirmed = 60, Deaths = 2, Recovered = 3, Active = 55\<rparr>]
     [''Europe''] [''Italy''] 737485 737486 = ?fd"
    by (simp add: filtered_data_filter)
  then have view: "?fd = filtered_data
     [\<lparr>Country_Region = Some ''Italy'', WHO_Region = Some ''Europe'', Date = Some 737485,
       Confirmed = 100, Deaths = 2, Recovered = 1, Active = 97\<rparr>,
      \<lparr>Country_Region = Some ''Spain'', WHO_Region = Some ''Europe'', Date = Some 737485,
       Confirmed = 40, Deaths = 1, Recovered = 0, Active = 39\<rparr>,
      \<lparr>Country_Region = Some ''Italy'', WHO_Region = Some ''Europe'', Date = Some 737486,
       Confirmed = 150, Deaths = 5, Recovered = 9, Active = 136\<rparr>,
      \<lparr>Country_Region = Some ''Spain'', WHO_Region = Some ''Europe'', Date = Some 737486,
       Confirmed = 60, Deaths = 2, Recovered = 3, Active = 55\<rparr>]
     [''Europe''] [''Italy''] 737485 737486"
    by (rule sym)
  have top: "top5 example_library ?fd = [''Italy'']"
    by code_simp
  from last_row_in_table_order [OF sort view]
  have "pie_loop ?fd (enumerate 0 (top5 example_library ?fd)) =
           Inr (map (\<lambda>(i, c). \<lparr>in_column = i, of_country = c,
                                pie_values = [Active (last (subset ?fd c)),
                                              Recovered (last (subset ?fd c)),
                                              Deaths (last (subset ?fd c))]\<rparr>)
                    (enumerate 0 (top5 example_library ?fd)))"
    by (rule conjunct1)
  then show "pie_loop ?fd (enumerate 0 (top5 example_library ?fd))
      = Inr [\<lparr>in_column = 0, of_country = ''Italy'', pie_values = [136, 9, 5]\<rparr>]"
    unfolding top by (simp add: subset_filter)
qed

text \<open>
  The claim as stated fails on a table that lists a later date first: the view has Italy's
  row of day 737486 (136 active, 9 recovered, 5 deaths) before its row of day 737485
  (97, 1, 2), and the chart takes the values of day 737485. The view has one country, so
  its ranking is the same for every library that keeps the contract.
\<close>

theorem last_row_not_latest_counterexample:
  "\<not> (\<exists>lib :: 'f library. sorts_descending (sort_values_Confirmed lib)
        \<and> pie_loop
            (filtered_data
               [\<lparr>Country_Region = Some ''Italy'', WHO_Region = Some ''Europe'', Date = Some 737486,
       Confirmed = 150, Deaths = 5, Recovered = 9, Active = 136\<rparr>,
                \<lparr>Country_Region = Some ''Italy'', WHO_Region = Some ''Europe'', Date = Some 737485,
       Confirmed = 100, Deaths = 2, Recovered = 1, Active = 97\<rparr>]
               [''Europe''] [] 737485 737486)
            (enumerate 0 (top5 lib (filtered_data
               [\<lparr>Country_Region = Some ''Italy'', WHO_Region = Some ''Europe'', Date = Some 737486,
       Confirmed = 150, Deaths = 5, Recovered = 9, Active = 136\<rparr>,
                \<lparr>Country_Region = Some ''Italy'', WHO_Region = Some ''Europe'', Date = Some 737485,
       Confirmed = 100, Deaths = 2, Recovered = 1, Active = 97\<rparr>]
               [''Europe''] [] 737485 737486)))
          \<noteq> Inr [\<lparr>in_column = 0, of_country = ''Italy'', pie_values = [97, 1, 2]\<rparr>])"
proof
  let ?t = "[\<lparr>Country_Region = Some ''Italy'', WHO_Region = Some ''Europe'', Date = Some 737486,
       Confirmed = 150, Deaths = 5, Recovered = 9, Active = 136\<rparr>,
                \<lparr>Country_Region = Some ''Italy'', WHO_Region = Some ''Europe'', Date = Some 737485,
       Confirmed = 100, Deaths = 2, Recovered = 1, Active = 97\<rparr>]"
  assume "\<exists>lib :: 'f library. sorts_descending (sort_values_Confirmed lib)
        \<and> pie_loop (filtered_data ?t [''Europe''] [] 737485 737486)
            (enumerate 0 (top5 lib (filtered_data ?t [''Europe''] [] 737485 737486)))
          \<noteq> Inr [\<lparr>in_column = 0, of_country = ''Italy'', pie_values = [97, 1, 2]\<rparr>]"
  then obtain lib :: "'f library"
    where sort: "sorts_descending (sort_values_Confirmed lib)"
      and other: "pie_loop (filtered_data ?t [''Europe''] [] 737485 737486)
            (enumerate 0 (top5 lib (filtered_data ?t [''Europe''] [] 737485 737486)))
          \<noteq> Inr [\<lparr>in_column = 0, of_country = ''Italy'', pie_values = [97, 1, 2]\<rparr>]"
    by blast
  have view: "filtered_data ?t [''Europe''] [] 737485 737486 = ?t"
    by (simp add: filtered_data_filter)
  have "max_confirmed ?t = [(''Italy'', 150)]"
    by (simp add: max_confirmed_def group_max_def groupby_keys_def)
  then have "top5 lib ?t = [''Italy'']"
    by (simp add: top5_def sorts_descending_single [OF sort])
  then have "pie_loop ?t (enumerate 0 (top5 lib ?t))
          = Inr [\<lparr>in_column = 0, of_country = ''Italy'', pie_values = [97, 1, 2]\<rparr>]"
    by (simp add: subset_filter)
  with other show False
    unfolding view by simp
qed

subsection \<open>The run on the store\<close>

lemma frame_at_old: "a < length st \<Longrightarrow> frame_at (st @ new) a = frame_at st a"
  by (simp add: frame_at_def nth_append)














subsection \<open>Runs of the script\<close>

lemma sorts_descending_Nil: "sorts_descending srt \<Longrightarrow> srt [] = []"
proof -
  assume "sorts_descending srt"
  then have "mset (srt []) = mset []"
    by (rule sorts_descending_mset)
  then show ?thesis
    by simp
qed

text \<open>
  C6. With no region selected (and any country selection and any date range of two
  endpoints) the run ends without an exception; the filtered view is empty, and so are the
  per-date totals, the per-region means, the top-5 ranking and the list of charts. This
  holds for every library that keeps the contract.
\<close>

theorem no_region_selected:
  assumes "contract lib"
  shows "run_script lib \<lparr>selected_region = [], selected_country = C, date_range = s # e # rest\<rparr> data
     = Inr (data, \<lparr>the_filtered_data = [], the_global_data = [], the_region_deaths = [],
                    the_top5 = [], the_pies = []\<rparr>)"
proof -
  have "filtered_data data [] C s e = []"
    by (simp add: filtered_data_filter)
  moreover have "sort_values_Confirmed lib [] = []" and "sort_values_Deaths lib [] = []"
    using assms by (simp_all add: contract_def sorts_descending_Nil)
  ultimately show ?thesis
    by (simp add: run_script_def subscript_def global_data_def region_deaths_def top5_def
        max_confirmed_def groupby_keys_def)
qed

theorem no_region_selected_witness:
  "contract example_library
   \<and> run_script example_library
      \<lparr>selected_region = [], selected_country = [''Italy''],
        date_range = [737485, 737486]\<rparr>
     [\<lparr>Country_Region = Some ''Italy'', WHO_Region = Some ''Europe'', Date = Some 737485,
       Confirmed = 100, Deaths = 2, Recovered = 1, Active = 97\<rparr>,
      \<lparr>Country_Region = Some ''Peru'', WHO_Region = Some ''Americas'', Date = Some 737485,
       Confirmed = 7, Deaths = 0, Recovered = 0, Active = 7\<rparr>,
      \<lparr>Country_Region = Some ''Italy'', WHO_Region = Some ''Europe'', Date = Some 737486,
       Confirmed = 150, Deaths = 5, Recovered = 9, Active = 136\<rparr>]
   = Inr ([\<lparr>Country_Region = Some ''Italy'', WHO_Region = Some ''Europe'', Date = Some 737485,
       Confirmed = 100, Deaths = 2, Recovered = 1, Active = 97\<rparr>,
      \<lparr>Country_Region = Some ''Peru'', WHO_Region = Some ''Americas'', Date = Some 737485,
       Confirmed = 7, Deaths = 0, Recovered = 0, Active = 7\<rparr>,
      \<lparr>Country_Region = Some ''Italy'', WHO_Region = Some ''Europe'', Date = Some 737486,
       Confirmed = 150, Deaths = 5, Recovered = 9, Active = 136\<rparr>],
          \<lparr>the_filtered_data = [], the_global_data = [], the_region_deaths = [],
             the_top5 = [], the_pies = []\<rparr>)"
  using no_region_selected [OF contract_example_library] contract_example_library
  by simp

text \<open>
  C10. When the date-range value of the sidebar has fewer than two elements, as when a
  single date has been chosen, the subscript for the second endpoint is out of range and
  the run ends with an IndexError: no filtered view and no aggregate is derived.
\<close>

theorem short_date_range:
  "length (date_range sb) < 2 \<Longrightarrow>
   subscript (date_range sb) 1 = Inl IndexError \<and> run_script lib sb data = Inl IndexError"
  by (simp add: run_script_def subscript_def)

theorem short_date_range_witness:
  "length (date_range \<lparr>selected_region = [''Europe''], selected_country = [], date_range = [737485]\<rparr>) < 2
   \<and> run_script example_library \<lparr>selected_region = [''Europe''], selected_country = [], date_range = [737485]\<rparr>
     [\<lparr>Country_Region = Some ''Italy'', WHO_Region = Some ''Europe'', Date = Some 737485,
       Confirmed = 100, Deaths = 2, Recovered = 1, Active = 97\<rparr>,
      \<lparr>Country_Region = Some ''Peru'', WHO_Region = Some ''Americas'', Date = Some 737485,
       Confirmed = 7, Deaths = 0, Recovered = 0, Active = 7\<rparr>,
      \<lparr>Country_Region = Some ''Italy'', WHO_Region = Some ''Europe'', Date = Some 737486,
       Confirmed = 150, Deaths = 5, Recovered = 9, Active = 136\<rparr>]
   = Inl IndexError"
proof -
  have short: "length (date_range \<lparr>selected_region = [''Europe''], selected_country = [], date_range = [737485]\<rparr>) < 2"
    by simp
  from short_date_range [OF short] short show ?thesis
    by blast
qed

section \<open>The snapshot loader\<close>

subsection \<open>Columns of a table\<close>

lemma getitem_distinct:
  "distinct (map fst df) \<Longrightarrow> (col, c) \<in> set df \<Longrightarrow> getitem df col = Inr c"
  by (simp add: getitem_def)

lemma getitem_present: "col \<in> fst ` set df \<Longrightarrow> \<exists>c. getitem df col = Inr c \<and> (col, c) \<in> set df"
  by (cases "map_of df col") (auto simp: getitem_def map_of_eq_None_iff dest: map_of_SomeD)

lemma names_setitem: "col \<in> fst ` set df \<Longrightarrow> map fst (setitem df col c) = map fst df"
  by (induction df col c rule: setitem.induct) auto

lemma set_setitem:
  "distinct (map fst df) \<Longrightarrow> (col, c0) \<in> set df \<Longrightarrow>
   set (setitem df col c) = insert (col, c) (set df - {(col, c0)})"
proof (induction df col c rule: setitem.induct)
  case (1 col c)
  then show ?case by simp
next
  case (2 name c1 df col c)
  show ?case
  proof (cases "name = col")
    case True
    with "2.prems" have "c1 = c0"
      by (auto simp: image_iff)
    moreover from True "2.prems" have "(col, c0) \<notin> set df"
      by (auto simp: image_iff)
    ultimately show ?thesis
      using True by auto
  next
    case False
    with "2.prems" have "set (setitem df col c) = insert (col, c) (set df - {(col, c0)})"
      by (intro "2.IH") auto
    with False show ?thesis
      by auto
  qed
qed

lemma try_convert_cases:
  assumes "distinct (map fst df)" and "(col, c) \<in> set df"
  shows "try_convert col (df, out) =
           (case those (map cast_cell (snd c)) of
              None \<Rightarrow> (df, out @ [col])
            | Some cells \<Rightarrow> (setitem df col (Int64, cells), out))"
  using assms
  by (simp add: try_convert_def getitem_distinct astype_Int64_def split: option.splits)

lemma convert_columns_inv:
  "distinct (map fst df) \<Longrightarrow> distinct cols \<Longrightarrow> set cols \<subseteq> fst ` set df \<Longrightarrow>
   convert_columns cols (df, out) = (df', out') \<Longrightarrow>
     map fst df' = map fst df
   \<and> set out \<subseteq> set out'
   \<and> (\<forall>name c. (name, c) \<in> set df \<longrightarrow>
         (if name \<in> set cols
          then (case those (map cast_cell (snd c)) of
                  Some cells \<Rightarrow> (name, (Int64, cells)) \<in> set df'
                                \<and> (name \<in> set out' \<longrightarrow> name \<in> set out)
                | None \<Rightarrow> (name, c) \<in> set df' \<and> name \<in> set out')
          else (name, c) \<in> set df' \<and> (name \<in> set out' \<longrightarrow> name \<in> set out)))"
proof (induction cols arbitrary: df out)
  case Nil
  then show ?case by auto
next
  case (Cons col cols)
  from Cons.prems obtain c0 where c0: "(col, c0) \<in> set df"
    by auto
  obtain df1 out1 where step: "try_convert col (df, out) = (df1, out1)"
    by (cases "try_convert col (df, out)")
  have cases: "(df1, out1) =
           (case those (map cast_cell (snd c0)) of
              None \<Rightarrow> (df, out @ [col])
            | Some cells \<Rightarrow> (setitem df col (Int64, cells), out))"
    using try_convert_cases [OF Cons.prems(1) c0, of out] step by simp
  have col_in: "col \<in> fst ` set df"
    using c0 by force
  have names1: "map fst df1 = map fst df"
    using cases names_setitem [OF col_in] by (auto split: option.splits)
  have others: "(name, c) \<in> set df1" if "(name, c) \<in> set df" "name \<noteq> col" for name c
    using cases that set_setitem [OF Cons.prems(1) c0] by (auto split: option.splits)
  have out1: "set out \<subseteq> set out1" "set out1 \<subseteq> insert col (set out)"
    using cases by (auto split: option.splits)
  have rest: "convert_columns cols (df1, out1) = (df', out')"
    using Cons.prems(4) step by simp
  have ih: "map fst df' = map fst df1
   \<and> set out1 \<subseteq> set out'
   \<and> (\<forall>name c. (name, c) \<in> set df1 \<longrightarrow>
         (if name \<in> set cols
          then (case those (map cast_cell (snd c)) of
                  Some cells \<Rightarrow> (name, (Int64, cells)) \<in> set df'
                                \<and> (name \<in> set out' \<longrightarrow> name \<in> set out1)
                | None \<Rightarrow> (name, c) \<in> set df' \<and> name \<in> set out')
          else (name, c) \<in> set df' \<and> (name \<in> set out' \<longrightarrow> name \<in> set out1)))"
  proof (rule Cons.IH [OF _ _ _ rest])
    show "distinct (map fst df1)"
      using Cons.prems(1) by (simp only: names1)
    show "distinct cols"
      using Cons.prems(2) by simp
    have "set (map fst df1) = set (map fst df)"
      by (simp only: names1)
    then show "set cols \<subseteq> fst ` set df1"
      using Cons.prems(3) by auto
  qed
  have col_notin: "col \<notin> set cols"
    using Cons.prems(2) by simp
  have ih_names: "map fst df' = map fst df1" and ih_out: "set out1 \<subseteq> set out'"
    using ih by blast+
  have ih_entry: "if name \<in> set cols
          then (case those (map cast_cell (snd c)) of
                  Some cells \<Rightarrow> (name, (Int64, cells)) \<in> set df'
                                \<and> (name \<in> set out' \<longrightarrow> name \<in> set out1)
                | None \<Rightarrow> (name, c) \<in> set df' \<and> name \<in> set out')
          else (name, c) \<in> set df' \<and> (name \<in> set out' \<longrightarrow> name \<in> set out1)"
    if "(name, c) \<in> set df1" for name c
    using ih that by blast
  have goal: "if name \<in> set (col # cols)
          then (case those (map cast_cell (snd c)) of
                  Some cells \<Rightarrow> (name, (Int64, cells)) \<in> set df'
                                \<and> (name \<in> set out' \<longrightarrow> name \<in> set out)
                | None \<Rightarrow> (name, c) \<in> set df' \<and> name \<in> set out')
          else (name, c) \<in> set df' \<and> (name \<in> set out' \<longrightarrow> name \<in> set out)"
    if entry: "(name, c) \<in> set df" for name c
  proof (cases "name = col")
    case False
    with entry have "(name, c) \<in> set df1"
      by (rule others)
    from ih_entry [OF this] False out1 show ?thesis
      by (auto split: option.splits if_splits)
  next
    case True
    with entry c0 Cons.prems(1) have c: "c = c0"
      by (metis eq_key_imp_eq_value)
    show ?thesis
    proof (cases "those (map cast_cell (snd c0))")
      case None
      with cases have df1: "df1 = df" and o1: "out1 = out @ [col]"
        by simp_all
      from c0 df1 have "(col, c0) \<in> set df1"
        by simp
      from ih_entry [OF this] col_notin have "(col, c0) \<in> set df'"
        by simp
      moreover from ih_out o1 have "col \<in> set out'"
        by auto
      ultimately show ?thesis
        using True c None by simp
    next
      case (Some cells)
      with cases have df1: "df1 = setitem df col (Int64, cells)" and o1: "out1 = out"
        by simp_all
      from df1 have "(col, (Int64, cells)) \<in> set df1"
        using set_setitem [OF Cons.prems(1) c0] by simp
      from ih_entry [OF this] col_notin o1
      have "(col, (Int64, cells)) \<in> set df'" "col \<in> set out' \<longrightarrow> col \<in> set out"
        by simp_all
      with True c Some show ?thesis
        by simp
    qed
  qed
  have "set out \<subseteq> set out'"
    using out1(1) ih_out by (rule subset_trans)
  moreover have "map fst df' = map fst df"
    using ih_names names1 by (rule trans)
  ultimately show ?case
    using goal by blast
qed


lemma names_select_rows: "map fst (select_rows df msk) = map fst df"
  by (induction df) (auto simp: select_rows_def)

lemma select_rows_entry:
  "(name, dt, cells) \<in> set df \<Longrightarrow> (name, dt, boolean_index cells msk) \<in> set (select_rows df msk)"
  by (force simp: select_rows_def image_iff)

lemma loc_assign_object: "\<exists>assigned. loc_assign msk (object, cells) source = Inr assigned"
  by (simp add: loc_assign_def)

lemma world_data_local_succeeds:
  assumes names: "distinct (map fst df)"
    and country: "(''Country/Region'', object, country) \<in> set df"
    and who: "(''WHO Region'', object, who) \<in> set df"
    and continent: "(''Continent'', object, continent) \<in> set df"
  shows "\<exists>world_data. world_data_local df = Inr world_data"
proof -
  let ?msk = "ne_mask country ''Diamond Princess''"
  let ?wd = "select_rows df ?msk"
  have names_wd: "distinct (map fst ?wd)"
    using names by (simp only: names_select_rows)
  have "getitem df ''Country/Region'' = Inr (object, country)"
    using names country by (rule getitem_distinct)
  moreover have "getitem ?wd ''WHO Region'' = Inr (object, boolean_index who ?msk)"
    using names_wd select_rows_entry [OF who] by (rule getitem_distinct)
  moreover have "getitem ?wd ''Continent'' = Inr (object, boolean_index continent ?msk)"
    using names_wd select_rows_entry [OF continent] by (rule getitem_distinct)
  moreover obtain assigned
    where "loc_assign (isna (boolean_index who ?msk)) (object, boolean_index who ?msk)
             (object, boolean_index continent ?msk) = Inr assigned"
    using loc_assign_object by blast
  ultimately show ?thesis
    by (simp add: world_data_local_def Let_def)
qed

lemma float_columns_iff:
  "distinct (map fst df) \<Longrightarrow> (name, c) \<in> set df \<Longrightarrow>
   name \<in> set (float_columns df) \<longleftrightarrow> fst c = float64"
proof -
  assume distinct: "distinct (map fst df)" and entry: "(name, c) \<in> set df"
  have "name \<in> set (float_columns df) \<longleftrightarrow> (\<exists>c'. (name, c') \<in> set df \<and> fst c' = float64)"
    by (force simp: float_columns_def image_iff)
  also have "\<dots> \<longleftrightarrow> fst c = float64"
    using distinct entry by (metis eq_key_imp_eq_value)
  finally show ?thesis .
qed

lemma distinct_float_columns: "distinct (map fst df) \<Longrightarrow> distinct (float_columns df)"
  by (simp add: float_columns_def distinct_map_filter)

lemma float_columns_names: "set (float_columns df) \<subseteq> fst ` set df"
  by (auto simp: float_columns_def)

lemma load_world_data_KeyError:
  "\<not> set per_million \<subseteq> set (float_columns csv) \<Longrightarrow> load_world_data csv = Inl KeyError"
  by (auto simp: load_world_data_def index_drop_def list_all_iff)

text \<open>
  C7. Take a snapshot table as \<^verbatim>\<open>read_csv\<close> yields it: its column names are distinct, the
  three per-million columns are float64 columns, and Country/Region, WHO Region and
  Continent are text columns. Then \<^verbatim>\<open>load_world_data\<close> returns a table with the same
  columns in the same order. Every float64 column other than the three per-million ones
  whose cells cast safely is returned as an Int64 column of the cast cells and nothing is
  printed for it; a float64 column whose conversion fails is returned as it was, with a
  line printed for it, and the load still returns. Every other column is returned as it
  was.
\<close>

theorem load_world_data_converts:
  assumes names: "distinct (map fst csv)"
    and ratios: "set per_million \<subseteq> set (float_columns csv)"
    and country: "(''Country/Region'', object, country) \<in> set csv"
    and who: "(''WHO Region'', object, who) \<in> set csv"
    and continent: "(''Continent'', object, continent) \<in> set csv"
  shows "\<exists>df out. load_world_data csv = Inr (df, out)
           \<and> map fst df = map fst csv
           \<and> (\<forall>(name, c) \<in> set csv.
                 if fst c = float64 \<and> name \<notin> set per_million
                 then (case those (map cast_cell (snd c)) of
                         Some cells \<Rightarrow> getitem df name = Inr (Int64, cells)
                                       \<and> name \<notin> set out
                       | None \<Rightarrow> getitem df name = Inr c \<and> name \<in> set out)
                 else getitem df name = Inr c \<and> name \<notin> set out)"
proof -
  let ?cols = "filter (\<lambda>name. name \<notin> set per_million) (float_columns csv)"
  have drop: "index_drop (float_columns csv) per_million = Inr ?cols"
    using ratios by (auto simp: index_drop_def list_all_iff)
  obtain df out where conv: "convert_columns ?cols (csv, []) = (df, out)"
    by (cases "convert_columns ?cols (csv, [])")
  have distinct_cols: "distinct ?cols"
    using names by (simp add: distinct_float_columns)
  have cols_names: "set ?cols \<subseteq> fst ` set csv"
    using float_columns_names [of csv] by auto
  note inv = convert_columns_inv [OF names distinct_cols cols_names conv]
  from inv have names_df: "map fst df = map fst csv"
    by blast
  then have distinct_df: "distinct (map fst df)"
    using names by simp
  have kept: "(name, object, cells) \<in> set df" if "(name, object, cells) \<in> set csv" for name cells
  proof -
    have "name \<notin> set ?cols"
      using float_columns_iff [OF names that] by simp
    with inv [THEN conjunct2, THEN conjunct2, rule_format, OF that] show ?thesis
      by simp
  qed
  obtain world_data where "world_data_local df = Inr world_data"
    using world_data_local_succeeds [OF distinct_df kept [OF country] kept [OF who]
        kept [OF continent]]
    by blast
  with drop conv have load: "load_world_data csv = Inr (df, out)"
    by (simp add: load_world_data_def)
  have entry: "if fst c = float64 \<and> name \<notin> set per_million
                 then (case those (map cast_cell (snd c)) of
                         Some cells \<Rightarrow> getitem df name = Inr (Int64, cells)
                                       \<and> name \<notin> set out
                       | None \<Rightarrow> getitem df name = Inr c \<and> name \<in> set out)
                 else getitem df name = Inr c \<and> name \<notin> set out"
    if "(name, c) \<in> set csv" for name c
  proof -
    have member: "name \<in> set ?cols \<longleftrightarrow> fst c = float64 \<and> name \<notin> set per_million"
      using float_columns_iff [OF names that] by auto
    note inv [THEN conjunct2, THEN conjunct2, rule_format, OF that]
    then show ?thesis
      unfolding member
      by (auto simp: getitem_distinct [OF distinct_df] split: option.splits if_splits)
  qed
  from load names_df entry show ?thesis
    by blast
qed

theorem load_world_data_converts_witness:
  "distinct (map fst
     [(''Country/Region'', object, [Str ''USA'', Str ''Brazil'']),
      (''Continent'', object, [Str ''North America'', Str ''South America'']),
      (''Population'', float64, [F64 331198130 0, NA]),
      (''TotalCases'', int64, [I64 5032179, I64 2917562]),
      (''Serious,Critical'', float64, [F64 36809 (-1), F64 8318 0]),
      (''Tot Cases/1M pop'', float64, [F64 15194 0, F64 13716 0]),
      (''Deaths/1M pop'', float64, [F64 492 0, F64 466 0]),
      (''Tests/1M pop'', float64, [F64 190640 0, NA]),
      (''WHO Region'', object, [Str ''Americas'', Str ''Americas''])])
   \<and> set per_million \<subseteq> set (float_columns
     [(''Country/Region'', object, [Str ''USA'', Str ''Brazil'']),
      (''Continent'', object, [Str ''North America'', Str ''South America'']),
      (''Population'', float64, [F64 331198130 0, NA]),
      (''TotalCases'', int64, [I64 5032179, I64 2917562]),
      (''Serious,Critical'', float64, [F64 36809 (-1), F64 8318 0]),
      (''Tot Cases/1M pop'', float64, [F64 15194 0, F64 13716 0]),
      (''Deaths/1M pop'', float64, [F64 492 0, F64 466 0]),
      (''Tests/1M pop'', float64, [F64 190640 0, NA]),
      (''WHO Region'', object, [Str ''Americas'', Str ''Americas''])])
   \<and> load_world_data
     [(''Country/Region'', object, [Str ''USA'', Str ''Brazil'']),
      (''Continent'', object, [Str ''North America'', Str ''South America'']),
      (''Population'', float64, [F64 331198130 0, NA]),
      (''TotalCases'', int64, [I64 5032179, I64 2917562]),
      (''Serious,Critical'', float64, [F64 36809 (-1), F64 8318 0]),
      (''Tot Cases/1M pop'', float64, [F64 15194 0, F64 13716 0]),
      (''Deaths/1M pop'', float64, [F64 492 0, F64 466 0]),
      (''Tests/1M pop'', float64, [F64 190640 0, NA]),
      (''WHO Region'', object, [Str ''Americas'', Str ''Americas''])]
   = Inr ([(''Country/Region'', object, [Str ''USA'', Str ''Brazil'']),
           (''Continent'', object, [Str ''North America'', Str ''South America'']),
           (''Population'', Int64, [I64 331198130, NA]),
           (''TotalCases'', int64, [I64 5032179, I64 2917562]),
           (''Serious,Critical'', float64, [F64 36809 (-1), F64 8318 0]),
           (''Tot Cases/1M pop'', float64, [F64 15194 0, F64 13716 0]),
           (''Deaths/1M pop'', float64, [F64 492 0, F64 466 0]),
           (''Tests/1M pop'', float64, [F64 190640 0, NA]),
           (''WHO Region'', object, [Str ''Americas'', Str ''Americas''])],
          [''Serious,Critical''])"
proof -
  let ?csv = "[(''Country/Region'', object, [Str ''USA'', Str ''Brazil'']),
      (''Continent'', object, [Str ''North America'', Str ''South America'']),
      (''Population'', float64, [F64 331198130 0, NA]),
      (''TotalCases'', int64, [I64 5032179, I64 2917562]),
      (''Serious,Critical'', float64, [F64 36809 (-1), F64 8318 0]),
      (''Tot Cases/1M pop'', float64, [F64 15194 0, F64 13716 0]),
      (''Deaths/1M pop'', float64, [F64 492 0, F64 466 0]),
      (''Tests/1M pop'', float64, [F64 190640 0, NA]),
      (''WHO Region'', object, [Str ''Americas'', Str ''Americas''])]"
  have names: "distinct (map fst ?csv)"
    by simp
  have ratios: "set per_million \<subseteq> set (float_columns ?csv)"
    by (simp add: per_million_def float_columns_def)
  have country: "(''Country/Region'', object, [Str ''USA'', Str ''Brazil'']) \<in> set ?csv"
    by simp
  have who: "(''WHO Region'', object, [Str ''Americas'', Str ''Americas'']) \<in> set ?csv"
    by simp
  have continent: "(''Continent'', object, [Str ''North America'', Str ''South America'']) \<in> set ?csv"
    by simp
  from load_world_data_converts [OF names ratios country who continent]
  obtain df out where "load_world_data ?csv = Inr (df, out)"
    by blast
  moreover have "load_world_data ?csv
      = Inr ([(''Country/Region'', object, [Str ''USA'', Str ''Brazil'']),
           (''Continent'', object, [Str ''North America'', Str ''South America'']),
           (''Population'', Int64, [I64 331198130, NA]),
           (''TotalCases'', int64, [I64 5032179, I64 2917562]),
           (''Serious,Critical'', float64, [F64 36809 (-1), F64 8318 0]),
           (''Tot Cases/1M pop'', float64, [F64 15194 0, F64 13716 0]),
           (''Deaths/1M pop'', float64, [F64 492 0, F64 466 0]),
           (''Tests/1M pop'', float64, [F64 190640 0, NA]),
           (''WHO Region'', object, [Str ''Americas'', Str ''Americas''])],
             [''Serious,Critical''])"
    by code_simp
  ultimately show ?thesis
    using names ratios by simp
qed

text \<open>
  C1 (a defect of the code). The table that \<^verbatim>\<open>load_world_data\<close> returns is \<^verbatim>\<open>df\<close>, the
  table after the conversions, not the local \<^verbatim>\<open>world_data\<close>: on a table with a row for
  Diamond Princess, a missing WHO Region and missing counts, the returned table still has
  the row of Diamond Princess, its WHO Region cells are still missing and no missing cell
  is zero.
\<close>

theorem load_world_data_returns_df:
  "load_world_data
     [(''Country/Region'', object, [Str ''USA'', Str ''Diamond Princess'', Str ''Holy See'']),
      (''Continent'', object, [Str ''North America'', NA, Str ''Europe'']),
      (''TotalDeaths'', float64, [F64 162804 0, F64 13 0, NA]),
      (''Tot Cases/1M pop'', float64, [F64 15194 0, NA, F64 14981 0]),
      (''Deaths/1M pop'', float64, [F64 492 0, NA, NA]),
      (''Tests/1M pop'', float64, [F64 190640 0, NA, NA]),
      (''WHO Region'', object, [Str ''Americas'', NA, NA])]
   = Inr ([(''Country/Region'', object, [Str ''USA'', Str ''Diamond Princess'', Str ''Holy See'']),
           (''Continent'', object, [Str ''North America'', NA, Str ''Europe'']),
           (''TotalDeaths'', Int64, [I64 162804, I64 13, NA]),
           (''Tot Cases/1M pop'', float64, [F64 15194 0, NA, F64 14981 0]),
           (''Deaths/1M pop'', float64, [F64 492 0, NA, NA]),
           (''Tests/1M pop'', float64, [F64 190640 0, NA, NA]),
           (''WHO Region'', object, [Str ''Americas'', NA, NA])],
          [])"
  by code_simp

text \<open>
  The local table of lines 101 to 104 is the cleaned one: for the table returned above it
  has no row of Diamond Princess, Holy See's region is its continent, and every missing
  cell is zero. Line 104 binds the name to None and line 105 returns \<^verbatim>\<open>df\<close>.
\<close>

lemma world_data_local_cleaned:
  "map_sum id fillna0 (world_data_local
     [(''Country/Region'', object, [Str ''USA'', Str ''Diamond Princess'', Str ''Holy See'']),
      (''Continent'', object, [Str ''North America'', NA, Str ''Europe'']),
      (''TotalDeaths'', Int64, [I64 162804, I64 13, NA]),
      (''Tot Cases/1M pop'', float64, [F64 15194 0, NA, F64 14981 0]),
      (''Deaths/1M pop'', float64, [F64 492 0, NA, NA]),
      (''Tests/1M pop'', float64, [F64 190640 0, NA, NA]),
      (''WHO Region'', object, [Str ''Americas'', NA, NA])])
   = Inr [(''Country/Region'', object, [Str ''USA'', Str ''Holy See'']),
        (''Continent'', object, [Str ''North America'', Str ''Europe'']),
        (''TotalDeaths'', Int64, [I64 162804, I64 0]),
        (''Tot Cases/1M pop'', float64, [F64 15194 0, F64 14981 0]),
        (''Deaths/1M pop'', float64, [F64 492 0, F64 0 0]),
        (''Tests/1M pop'', float64, [F64 190640 0, F64 0 0]),
        (''WHO Region'', object, [Str ''Americas'', Str ''Europe''])]"
  by code_simp

end
